theory Spec2Isabelle
  imports Main "HOL-Library.Option_ord" "HOL-Library.Sublist" "HOL-Library.Multiset"
begin

section \<open>Chatterbox: the message table and its four HTTP handlers\<close>

text \<open>
  The development embeds \<^verbatim>\<open>server/models.py\<close> (the \<^verbatim>\<open>Message\<close> table) and
  \<^verbatim>\<open>server/app.py\<close> (the error handlers and the routes \<^verbatim>\<open>get_messages\<close>,
  \<^verbatim>\<open>create_message\<close>, \<^verbatim>\<open>update_message\<close>, \<^verbatim>\<open>delete_message\<close>).

  A handler is a function of the value that \<^verbatim>\<open>request.get_json()\<close> returned, of the
  committed rows of the table and of an environment (the clock reading and the exception,
  if any, that the persistence layer raises inside the handler's \<^verbatim>\<open>try\<close> block). It
  returns the response (or the Python exception that escapes the handler), the committed
  rows afterwards and the calls made on the database session, in order.

  The banner route \<^verbatim>\<open>/\<close>, the routing table and the start-up of the application are
  not modelled; neither is an exception raised by \<^verbatim>\<open>request.get_json()\<close> itself.
\<close>

subsection \<open>JSON values and the Python operators applied to them\<close>

text \<open>
  The value parsed from the request body. \<open>JNull\<close> is Python's \<^verbatim>\<open>None\<close>; \<open>JObj\<close>
  holds the pairs of the object in the order of the text, and of a repeated key the last
  pair counts, as in the parsed \<^verbatim>\<open>dict\<close>. Numbers are the integers; a number with a
  fraction or an exponent (a Python float) is outside this type.
\<close>

datatype json =
    JNull
  | JBool bool
  | JInt int
  | JStr string
  | JArr "json list"
  | JObj "(string \<times> json) list"

datatype pyexn = TypeError | AttributeError | OverflowError

text \<open>Python's truth value, as tested by \<^verbatim>\<open>not x\<close>.\<close>

fun truthy :: "json \<Rightarrow> bool" where
  "truthy JNull = False"
| "truthy (JBool b) = b"
| "truthy (JInt n) = (n \<noteq> 0)"
| "truthy (JStr s) = (s \<noteq> [])"
| "truthy (JArr xs) = (xs \<noteq> [])"
| "truthy (JObj kvs) = (kvs \<noteq> [])"

text \<open>
  \<^verbatim>\<open>k in data\<close> for a string \<open>k\<close>: a key test on a dict, an element test on a list, a
  substring test on a string, and \<^verbatim>\<open>TypeError\<close> on a value that is not iterable.
\<close>

fun py_in :: "string \<Rightarrow> json \<Rightarrow> pyexn + bool" where
  "py_in k (JObj kvs) = Inr (k \<in> set (map fst kvs))"
| "py_in k (JArr xs) = Inr (JStr k \<in> set xs)"
| "py_in k (JStr s) = Inr (sublist k s)"
| "py_in k JNull = Inl TypeError"
| "py_in k (JBool b) = Inl TypeError"
| "py_in k (JInt n) = Inl TypeError"

text \<open>\<^verbatim>\<open>all(k in data for k in ks)\<close>: left to right, stopping at the first \<^verbatim>\<open>False\<close>.\<close>

fun all_in :: "string list \<Rightarrow> json \<Rightarrow> pyexn + bool" where
  "all_in [] data = Inr True"
| "all_in (k # ks) data =
     (case py_in k data of
        Inl x \<Rightarrow> Inl x
      | Inr False \<Rightarrow> Inr False
      | Inr True \<Rightarrow> all_in ks data)"

text \<open>\<^verbatim>\<open>data.get(k)\<close>: only a dict has the method; a missing key gives \<^verbatim>\<open>None\<close>.\<close>

fun py_get :: "json \<Rightarrow> string \<Rightarrow> pyexn + json" where
  "py_get (JObj kvs) k = Inr (case map_of (rev kvs) k of None \<Rightarrow> JNull | Some v \<Rightarrow> v)"
| "py_get JNull k = Inl AttributeError"
| "py_get (JBool b) k = Inl AttributeError"
| "py_get (JInt n) k = Inl AttributeError"
| "py_get (JStr s) k = Inl AttributeError"
| "py_get (JArr xs) k = Inl AttributeError"

text \<open>\<^verbatim>\<open>str(n)\<close> for an integer, as the f-strings of the handlers format the id.\<close>

fun str_nat :: "nat \<Rightarrow> string" where
  "str_nat n =
     (if n < 10 then [''0123456789'' ! n]
      else str_nat (n div 10) @ [''0123456789'' ! (n mod 10)])"

declare str_nat.simps [simp del]

definition str_int :: "int \<Rightarrow> string" where
  "str_int i = (if i < 0 then CHR ''-'' # str_nat (nat (- i)) else str_nat (nat i))"

subsection \<open>Responses and the error handlers\<close>

record response =
  status :: nat
  payload :: json

text \<open>
  What an error handler is called with: Flask passes an exception instance, the routes of
  this application pass a \<^verbatim>\<open>str\<close>. \<open>Exc s\<close> is an exception whose \<^verbatim>\<open>str()\<close> is \<open>s\<close>.
\<close>

datatype handler_arg = Exc string | Text string

definition not_found :: "handler_arg \<Rightarrow> response" where
  "not_found error =
     (let message = (case error of Exc s \<Rightarrow> s | Text t \<Rightarrow> ''Resource not found'')
      in \<lparr>status = 404, payload = JObj [(''error'', JStr message)]\<rparr>)"

definition bad_request :: "handler_arg \<Rightarrow> response" where
  "bad_request error =
     (let message = (case error of Exc s \<Rightarrow> s | Text t \<Rightarrow> ''Bad Request'')
      in \<lparr>status = 400, payload = JObj [(''error'', JStr message)]\<rparr>)"

definition internal_server_error :: "handler_arg \<Rightarrow> response" where
  "internal_server_error error =
     (let message = (case error of Exc s \<Rightarrow> s | Text t \<Rightarrow> ''Internal Server Error'')
      in \<lparr>status = 500, payload = JObj [(''error'', JStr message)]\<rparr>)"

subsection \<open>The Message table\<close>

type_synonym datetime = nat

text \<open>
  A \<^verbatim>\<open>Message\<close>: an object of the session, or a row of the table. The two timestamp
  columns are nullable. In an object, \<open>body\<close> and \<open>username\<close> hold the value the
  handler assigned, which the handlers do not restrict to strings; in a row they hold what
  the table stored for it (see \<open>bind_param\<close> below).
\<close>

record message =
  msg_id :: int
  body :: json
  username :: json
  created_at :: "datetime option"
  updated_at :: "datetime option"

text \<open>
  \<^verbatim>\<open>to_dict()\<close> of the serializer mixin: every column, a timestamp as the string
  \<open>fmt\<close> renders (the mixin's date format, a parameter here), \<^verbatim>\<open>None\<close> as null.
\<close>

definition ser_datetime :: "(datetime \<Rightarrow> string) \<Rightarrow> datetime option \<Rightarrow> json" where
  "ser_datetime fmt t = (case t of None \<Rightarrow> JNull | Some d \<Rightarrow> JStr (fmt d))"

definition to_dict :: "(datetime \<Rightarrow> string) \<Rightarrow> message \<Rightarrow> json" where
  "to_dict fmt m =
     JObj [(''body'', body m),
           (''created_at'', ser_datetime fmt (created_at m)),
           (''id'', JInt (msg_id m)),
           (''updated_at'', ser_datetime fmt (updated_at m)),
           (''username'', username m)]"

text \<open>
  Exceptions of the persistence layer: \<^verbatim>\<open>sqlalchemy.exc.IntegrityError\<close> and any
  other exception, each with its \<^verbatim>\<open>str()\<close>.
\<close>

datatype db_exn = IntegrityError string | OtherError string

fun exn_str :: "db_exn \<Rightarrow> string" where
  "exn_str (IntegrityError s) = s"
| "exn_str (OtherError s) = s"

text \<open>
  The environment of one request: the reading of \<^verbatim>\<open>datetime.utcnow()\<close>, and the
  exception that the persistence layer raises inside the handler's \<^verbatim>\<open>try\<close> block
  (at the query of \<^verbatim>\<open>get_messages\<close>, at the commit of the others) for a cause that
  does not lie in the request, if it raises one.
\<close>

record env =
  now :: datetime
  db_fault :: "db_exn option"

text \<open>Calls on the query interface and the session, as the handlers make them.\<close>

datatype db_call = QueryAll | QueryGet int | Add | Delete | Commit | Rollback

text \<open>
  What the driver and SQLite make of a Python value bound to a \<^verbatim>\<open>db.String\<close> column:
  a \<^verbatim>\<open>str\<close> is stored as it is and \<^verbatim>\<open>None\<close> as NULL; an \<^verbatim>\<open>int\<close> that fits
  64 bits is bound as an integer and stored, by the column's text affinity, as its decimal
  text, and so is a \<^verbatim>\<open>bool\<close>, which is bound as 1 or 0; a larger \<^verbatim>\<open>int\<close>, a
  \<^verbatim>\<open>list\<close> and a \<^verbatim>\<open>dict\<close> cannot be bound, and the statement raises an exception
  that is not an \<^verbatim>\<open>IntegrityError\<close>.
\<close>

definition fits_int64 :: "int \<Rightarrow> bool" where
  "fits_int64 i = (- (2 ^ 63) \<le> i \<and> i < 2 ^ 63)"

fun bind_param :: "json \<Rightarrow> db_exn + json" where
  "bind_param JNull = Inr JNull"
| "bind_param (JStr s) = Inr (JStr s)"
| "bind_param (JBool b) = Inr (JStr (if b then ''1'' else ''0''))"
| "bind_param (JInt n) =
     (if fits_int64 n then Inr (JStr (str_int n))
      else Inl (OtherError ''Python int too large to convert to SQLite INTEGER''))"
| "bind_param (JArr xs) = Inl (OtherError ''Error binding parameter: type is not supported'')"
| "bind_param (JObj kvs) = Inl (OtherError ''Error binding parameter: type is not supported'')"

text \<open>
  The table is a list of rows in the order of the primary key. The key of an inserted row
  is the one SQLite gives an \<^verbatim>\<open>INTEGER PRIMARY KEY\<close> column that the statement leaves
  out: one more than the largest key in the table, and 1 in an empty table.
\<close>

definition next_id :: "message list \<Rightarrow> int" where
  "next_id rows = (if rows = [] then 1 else Max (set (map msg_id rows)) + 1)"

text \<open>
  \<^verbatim>\<open>Message.query.get(id)\<close>: the row with that primary key, or \<^verbatim>\<open>None\<close>. The id
  is bound to the SELECT as an integer, and for an id that does not fit 64 bits the driver
  raises \<^verbatim>\<open>OverflowError\<close>.
\<close>

definition query_get :: "int \<Rightarrow> message list \<Rightarrow> pyexn + message option" where
  "query_get i rows =
     (if fits_int64 i then Inr (find (\<lambda>m. msg_id m = i) rows) else Inl OverflowError)"

text \<open>
  \<^verbatim>\<open>Message.query.order_by(Message.created_at.asc()).all()\<close>: the rows sorted by
  \<open>created_at\<close>, null first; rows with equal keys stay in the order of the table scan.
\<close>

definition query_all_ordered :: "message list \<Rightarrow> message list" where
  "query_all_ordered rows = sort_key created_at rows"

text \<open>
  \<^verbatim>\<open>Message(body=b, username=u)\<close>, \<^verbatim>\<open>db.session.add\<close> and \<^verbatim>\<open>db.session.commit\<close>:
  the INSERT, and the row as it is read back. The two values are bound first; the columns
  \<open>body\<close> and \<open>username\<close> are \<^verbatim>\<open>nullable=False\<close>, so a null in either is an
  integrity error; \<open>created_at\<close> takes its default, the clock; \<open>updated_at\<close> has no
  default and \<^verbatim>\<open>onupdate\<close> does not apply to an INSERT.
\<close>

definition insert_message :: "env \<Rightarrow> json \<Rightarrow> json \<Rightarrow> message list \<Rightarrow> db_exn + message" where
  "insert_message e b u rows =
     (case db_fault e of
        Some x \<Rightarrow> Inl x
      | None \<Rightarrow>
          (case bind_param b of
             Inl x \<Rightarrow> Inl x
           | Inr b' \<Rightarrow>
               (case bind_param u of
                  Inl x \<Rightarrow> Inl x
                | Inr u' \<Rightarrow>
                    if b' = JNull \<or> u' = JNull
                    then Inl (IntegrityError ''NOT NULL constraint failed'')
                    else Inr \<lparr>msg_id = next_id rows, body = b', username = u',
                              created_at = Some (now e), updated_at = None\<rparr>)))"

text \<open>
  The commit of an object whose \<open>body\<close> and \<open>updated_at\<close> were assigned: the UPDATE
  that sets these two columns in the row with the object's primary key, binding the body
  as the INSERT does and under the same \<^verbatim>\<open>nullable=False\<close> constraint. It gives the
  object as it is read back after the commit, and the table.
\<close>

definition update_row ::
  "env \<Rightarrow> message \<Rightarrow> message list \<Rightarrow> db_exn + message \<times> message list" where
  "update_row e m rows =
     (case db_fault e of
        Some x \<Rightarrow> Inl x
      | None \<Rightarrow>
          (case bind_param (body m) of
             Inl x \<Rightarrow> Inl x
           | Inr b' \<Rightarrow>
               if b' = JNull then Inl (IntegrityError ''NOT NULL constraint failed'')
               else Inr (m\<lparr>body := b'\<rparr>,
                         map (\<lambda>r. if msg_id r = msg_id m
                                  then r\<lparr>body := b', updated_at := updated_at m\<rparr>
                                  else r) rows)))"

text \<open>The commit of a deleted row: the DELETE of the row with that primary key.\<close>

definition delete_row :: "env \<Rightarrow> int \<Rightarrow> message list \<Rightarrow> db_exn + message list" where
  "delete_row e i rows =
     (case db_fault e of
        Some x \<Rightarrow> Inl x
      | None \<Rightarrow> Inr (filter (\<lambda>r. msg_id r \<noteq> i) rows))"

subsection \<open>The routes\<close>

record outcome =
  result :: "pyexn + response"
  store :: "message list"
  calls :: "db_call list"

definition get_messages :: "(datetime \<Rightarrow> string) \<Rightarrow> env \<Rightarrow> message list \<Rightarrow> outcome" where
  "get_messages fmt e rows =
     (case db_fault e of
        None \<Rightarrow>
          (let messages = query_all_ordered rows;
               messages_data = map (to_dict fmt) messages
           in \<lparr>result = Inr \<lparr>status = 200, payload = JArr messages_data\<rparr>,
               store = rows, calls = [QueryAll]\<rparr>)
      | Some x \<Rightarrow>
          \<lparr>result = Inr (internal_server_error (Text (exn_str x))),
           store = rows, calls = [QueryAll, Rollback]\<rparr>)"

definition create_message :: "(datetime \<Rightarrow> string) \<Rightarrow> env \<Rightarrow> json \<Rightarrow> message list \<Rightarrow> outcome" where
  "create_message fmt e data rows =
     (if \<not> truthy data
      then \<lparr>result = Inr (bad_request
              (Text (''Missing required fields: 'body' and 'username'' @ [CHR 0x27]))),
            store = rows, calls = []\<rparr>
      else case all_in [''body'', ''username''] data of
        Inl x \<Rightarrow> \<lparr>result = Inl x, store = rows, calls = []\<rparr>
      | Inr False \<Rightarrow>
          \<lparr>result = Inr (bad_request
             (Text (''Missing required fields: 'body' and 'username'' @ [CHR 0x27]))),
           store = rows, calls = []\<rparr>
      | Inr True \<Rightarrow>
          (case py_get data ''body'' of
             Inl x \<Rightarrow> \<lparr>result = Inl x, store = rows, calls = []\<rparr>
           | Inr b \<Rightarrow>
               (case py_get data ''username'' of
                  Inl x \<Rightarrow> \<lparr>result = Inl x, store = rows, calls = []\<rparr>
                | Inr u \<Rightarrow>
                    if \<not> truthy b
                    then \<lparr>result = Inr (bad_request (Text ''Body and username cannot be empty.'')),
                          store = rows, calls = []\<rparr>
                    else if \<not> truthy u
                    then \<lparr>result = Inr (bad_request (Text ''Body and username cannot be empty.'')),
                          store = rows, calls = []\<rparr>
                    else (case insert_message e b u rows of
                            Inr new_message \<Rightarrow>
                              \<lparr>result = Inr \<lparr>status = 201, payload = to_dict fmt new_message\<rparr>,
                               store = rows @ [new_message], calls = [Add, Commit]\<rparr>
                          | Inl (IntegrityError s) \<Rightarrow>
                              \<lparr>result = Inr (bad_request
                                 (Text ''Failed to create message due to data integrity issue.'')),
                               store = rows, calls = [Add, Commit, Rollback]\<rparr>
                          | Inl (OtherError s) \<Rightarrow>
                              \<lparr>result = Inr (internal_server_error (Text s)),
                               store = rows, calls = [Add, Commit, Rollback]\<rparr>))))"

definition update_message ::
  "(datetime \<Rightarrow> string) \<Rightarrow> env \<Rightarrow> int \<Rightarrow> json \<Rightarrow> message list \<Rightarrow> outcome" where
  "update_message fmt e i data rows =
     (case query_get i rows of
        Inl x \<Rightarrow> \<lparr>result = Inl x, store = rows, calls = [QueryGet i]\<rparr>
      | Inr None \<Rightarrow>
          \<lparr>result = Inr (not_found (Text (''Message with id '' @ str_int i @ '' not found''))),
           store = rows, calls = [QueryGet i]\<rparr>
      | Inr (Some message) \<Rightarrow>
          if \<not> truthy data
          then \<lparr>result = Inr (bad_request
                  (Text ''Missing 'body' field in request body for update'')),
                store = rows, calls = [QueryGet i]\<rparr>
          else case py_in ''body'' data of
            Inl x \<Rightarrow> \<lparr>result = Inl x, store = rows, calls = [QueryGet i]\<rparr>
          | Inr False \<Rightarrow>
              \<lparr>result = Inr (bad_request
                 (Text ''Missing 'body' field in request body for update'')),
               store = rows, calls = [QueryGet i]\<rparr>
          | Inr True \<Rightarrow>
              (case py_get data ''body'' of
                 Inl x \<Rightarrow> \<lparr>result = Inl x, store = rows, calls = [QueryGet i]\<rparr>
               | Inr new_body \<Rightarrow>
                   if \<not> truthy new_body
                   then \<lparr>result = Inr (bad_request (Text ''Message body cannot be empty.'')),
                         store = rows, calls = [QueryGet i]\<rparr>
                   else (let message' = message\<lparr>body := new_body, updated_at := Some (now e)\<rparr>
                         in case update_row e message' rows of
                              Inr (message'', rows') \<Rightarrow>
                                \<lparr>result = Inr \<lparr>status = 200, payload = to_dict fmt message''\<rparr>,
                                 store = rows', calls = [QueryGet i, Add, Commit]\<rparr>
                            | Inl (IntegrityError s) \<Rightarrow>
                                \<lparr>result = Inr (bad_request
                                   (Text ''Failed to update message due to data integrity issue.'')),
                                 store = rows, calls = [QueryGet i, Add, Commit, Rollback]\<rparr>
                            | Inl (OtherError s) \<Rightarrow>
                                \<lparr>result = Inr (internal_server_error (Text s)),
                                 store = rows, calls = [QueryGet i, Add, Commit, Rollback]\<rparr>)))"

definition delete_message :: "env \<Rightarrow> int \<Rightarrow> message list \<Rightarrow> outcome" where
  "delete_message e i rows =
     (case query_get i rows of
        Inl x \<Rightarrow> \<lparr>result = Inl x, store = rows, calls = [QueryGet i]\<rparr>
      | Inr None \<Rightarrow>
          \<lparr>result = Inr (not_found (Text (''Message with id '' @ str_int i @ '' not found''))),
           store = rows, calls = [QueryGet i]\<rparr>
      | Inr (Some message) \<Rightarrow>
          (case delete_row e i rows of
             Inr rows' \<Rightarrow>
               \<lparr>result = Inr \<lparr>status = 200,
                   payload = JObj [(''message'',
                     JStr (''Message with id '' @ str_int i @ '' successfully deleted''))]\<rparr>,
                store = rows', calls = [QueryGet i, Delete, Commit]\<rparr>
           | Inl x \<Rightarrow>
               \<lparr>result = Inr (internal_server_error (Text (exn_str x))),
                store = rows, calls = [QueryGet i, Delete, Commit, Rollback]\<rparr>))"

text \<open>The two error outcomes that recur: 400 and 500 with the handler's fixed message.\<close>

abbreviation rejected :: "message list \<Rightarrow> db_call list \<Rightarrow> outcome" where
  "rejected rows cs \<equiv>
     \<lparr>result = Inr \<lparr>status = 400, payload = JObj [(''error'', JStr ''Bad Request'')]\<rparr>,
      store = rows, calls = cs\<rparr>"

abbreviation failed :: "message list \<Rightarrow> db_call list \<Rightarrow> outcome" where
  "failed rows cs \<equiv>
     \<lparr>result = Inr \<lparr>status = 500, payload = JObj [(''error'', JStr ''Internal Server Error'')]\<rparr>,
      store = rows, calls = cs\<rparr>"

subsection \<open>Auxiliary facts\<close>

lemma key_in_iff: "k \<in> set (map fst kvs) \<longleftrightarrow> map_of (rev kvs) k \<noteq> None"
  by (simp add: map_of_eq_None_iff)

lemma all_in_obj:
  "all_in [''body'', ''username''] (JObj kvs) =
     Inr (map_of (rev kvs) ''body'' \<noteq> None \<and> map_of (rev kvs) ''username'' \<noteq> None)"
  using key_in_iff [of "''body''" kvs] key_in_iff [of "''username''" kvs]
  by (auto split: sum.splits bool.splits)

lemma py_in_obj: "py_in k (JObj kvs) = Inr (map_of (rev kvs) k \<noteq> None)"
  using key_in_iff [of k kvs] by simp

lemma bad_request_text:
  "bad_request (Text t) = \<lparr>status = 400, payload = JObj [(''error'', JStr ''Bad Request'')]\<rparr>"
  by (simp add: bad_request_def)

lemma not_found_text:
  "not_found (Text t) = \<lparr>status = 404, payload = JObj [(''error'', JStr ''Resource not found'')]\<rparr>"
  by (simp add: not_found_def)

lemma internal_server_error_text:
  "internal_server_error (Text t) =
     \<lparr>status = 500, payload = JObj [(''error'', JStr ''Internal Server Error'')]\<rparr>"
  by (simp add: internal_server_error_def)

lemmas error_texts = bad_request_text not_found_text internal_server_error_text

lemma str_nat_not_empty: "str_nat n \<noteq> []"
  by (subst str_nat.simps) simp

lemma str_int_not_empty: "str_int i \<noteq> []"
  by (simp add: str_int_def str_nat_not_empty)

lemma str_nat_digit: "n < 10 \<Longrightarrow> str_nat n = [''0123456789'' ! n]"
  by (subst str_nat.simps) simp

lemma str_nat_digits:
  "10 \<le> n \<Longrightarrow> str_nat n = str_nat (n div 10) @ [''0123456789'' ! (n mod 10)]"
  by (subst str_nat.simps) simp

lemma digit_char:
  assumes "d < 10"
  shows "of_char (''0123456789'' ! d) = (48::nat) + d"
proof -
  from assms have "d \<in> {0, 1, 2, 3, 4, 5, 6, 7, 8, 9}" by auto
  then show ?thesis by (elim insertE emptyE) simp_all
qed

lemma str_nat_decimal:
  "foldl (\<lambda>a c. 10 * a + (of_char c - 48)) 0 (str_nat n) = n"
proof (induction n rule: str_nat.induct)
  case (1 n)
  show ?case
  proof (cases "n < 10")
    case True
    then show ?thesis by (simp add: str_nat_digit digit_char)
  next
    case False
    then have ge: "10 \<le> n" by simp
    have d: "n mod 10 < 10" by simp
    from False 1 have ih: "foldl (\<lambda>a c. 10 * a + (of_char c - 48)) 0 (str_nat (n div 10)) = n div 10"
      by simp
    show ?thesis
      by (simp add: str_nat_digits [OF ge] ih digit_char [OF d])
  qed
qed

lemma bind_param_truthy:
  assumes "truthy v" and "bind_param v = Inr v'"
  shows "truthy v' \<and> v' \<noteq> JNull"
  using assms by (cases v) (auto simp add: str_int_not_empty split: if_splits)


lemma insert_message_ok:
  assumes "db_fault e = None" and "truthy b" and "truthy u"
      and "bind_param b = Inr b'" and "bind_param u = Inr u'"
  shows "insert_message e b u rows =
           Inr \<lparr>msg_id = next_id rows, body = b', username = u',
                created_at = Some (now e), updated_at = None\<rparr>"
  using assms bind_param_truthy [OF assms(2,4)] bind_param_truthy [OF assms(3,5)]
  by (simp add: insert_message_def)


lemma create_message_missing:
  assumes "map_of (rev kvs) ''body'' = None \<or> map_of (rev kvs) ''username'' = None"
  shows "create_message fmt e (JObj kvs) rows = rejected rows []"
  using assms unfolding create_message_def all_in_obj
  by (auto simp add: bad_request_text)

lemma create_message_present:
  assumes "map_of (rev kvs) ''body'' = Some b" and "map_of (rev kvs) ''username'' = Some u"
  shows "create_message fmt e (JObj kvs) rows =
     (if truthy b \<and> truthy u
      then case insert_message e b u rows of
             Inr m \<Rightarrow> \<lparr>result = Inr \<lparr>status = 201, payload = to_dict fmt m\<rparr>,
                       store = rows @ [m], calls = [Add, Commit]\<rparr>
           | Inl (IntegrityError s) \<Rightarrow> rejected rows [Add, Commit, Rollback]
           | Inl (OtherError s) \<Rightarrow> failed rows [Add, Commit, Rollback]
      else rejected rows [])"
proof -
  from assms(1) have "kvs \<noteq> []" by auto
  then show ?thesis
    using assms unfolding create_message_def all_in_obj
    by (simp add: error_texts split: sum.splits db_exn.splits)
qed

lemma create_message_not_obj:
  assumes "\<forall>kvs. data \<noteq> JObj kvs"
  shows "store (create_message fmt e data rows) = rows \<and> calls (create_message fmt e data rows) = []"
  using assms unfolding create_message_def
  by (cases data) (simp_all split: sum.splits bool.splits)


lemma query_get_Some:
  "query_get i rows = Inr (Some m) \<Longrightarrow> m \<in> set rows \<and> msg_id m = i \<and> fits_int64 i"
  by (auto simp add: query_get_def find_Some_iff split: if_splits)

lemma query_get_overflow: "\<not> fits_int64 i \<Longrightarrow> query_get i rows = Inl OverflowError"
  by (simp add: query_get_def)

lemma update_message_overflow:
  assumes "\<not> fits_int64 i"
  shows "update_message fmt e i data rows =
           \<lparr>result = Inl OverflowError, store = rows, calls = [QueryGet i]\<rparr>"
  using assms by (simp add: update_message_def query_get_overflow)

lemma update_message_unknown:
  assumes "query_get i rows = Inr None"
  shows "update_message fmt e i data rows =
           \<lparr>result = Inr \<lparr>status = 404, payload = JObj [(''error'', JStr ''Resource not found'')]\<rparr>,
            store = rows, calls = [QueryGet i]\<rparr>"
  using assms by (simp add: update_message_def not_found_text)

lemma update_message_missing:
  assumes "query_get i rows = Inr (Some m)" and "map_of (rev kvs) ''body'' = None"
  shows "update_message fmt e i (JObj kvs) rows = rejected rows [QueryGet i]"
  using assms unfolding update_message_def py_in_obj
  by (simp add: bad_request_text)

lemma update_message_present:
  assumes "query_get i rows = Inr (Some m)" and "map_of (rev kvs) ''body'' = Some b"
  shows "update_message fmt e i (JObj kvs) rows =
     (if truthy b
      then case update_row e (m\<lparr>body := b, updated_at := Some (now e)\<rparr>) rows of
             Inr (m', rows') \<Rightarrow>
               \<lparr>result = Inr \<lparr>status = 200, payload = to_dict fmt m'\<rparr>,
                store = rows', calls = [QueryGet i, Add, Commit]\<rparr>
           | Inl (IntegrityError s) \<Rightarrow> rejected rows [QueryGet i, Add, Commit, Rollback]
           | Inl (OtherError s) \<Rightarrow> failed rows [QueryGet i, Add, Commit, Rollback]
      else rejected rows [QueryGet i])"
proof -
  from assms(2) have "kvs \<noteq> []" by auto
  then show ?thesis
    using assms unfolding update_message_def py_in_obj
    by (simp add: error_texts Let_def split: sum.splits db_exn.splits prod.splits)
qed

lemma update_message_not_obj:
  assumes "\<forall>kvs. data \<noteq> JObj kvs"
  shows "store (update_message fmt e i data rows) = rows
       \<and> Add \<notin> set (calls (update_message fmt e i data rows))"
  using assms unfolding update_message_def
  by (cases data) (simp_all split: option.splits sum.splits bool.splits)

lemma insort_key_ties:
  assumes "sorted_wrt (\<lambda>a b. f a = f b \<longrightarrow> R a b) ys"
      and "\<forall>y\<in>set ys. f x = f y \<longrightarrow> R x y"
  shows "sorted_wrt (\<lambda>a b. f a = f b \<longrightarrow> R a b) (insort_key f x ys)"
  using assms by (induction ys) (auto simp add: set_insort_key)

lemma sort_key_ties:
  assumes "sorted_wrt R xs"
  shows "sorted_wrt (\<lambda>a b. f a = f b \<longrightarrow> R a b) (sort_key f xs)"
  using assms
proof (induction xs)
  case Nil
  then show ?case by simp
next
  case (Cons x xs)
  then show ?case by (simp add: insort_key_ties)
qed

lemma next_id_fresh: "next_id rows \<notin> set (map msg_id rows)"
proof (cases "rows = []")
  case True
  then show ?thesis by simp
next
  case False
  have "\<forall>r\<in>set rows. msg_id r \<le> Max (set (map msg_id rows))" by simp
  then have "\<forall>r\<in>set rows. msg_id r < next_id rows"
    using False by (auto simp add: next_id_def less_Suc_eq_le intro: le_less_trans)
  then show ?thesis by auto
qed

lemma update_message_ok:
  assumes "query_get i rows = Inr (Some m)" and "map_of (rev kvs) ''body'' = Some b"
      and "truthy b" and "bind_param b = Inr b'" and "db_fault e = None"
  shows "update_message fmt e i (JObj kvs) rows =
     \<lparr>result = Inr \<lparr>status = 200,
         payload = to_dict fmt (m\<lparr>body := b', updated_at := Some (now e)\<rparr>)\<rparr>,
      store = map (\<lambda>r. if msg_id r = i then r\<lparr>body := b', updated_at := Some (now e)\<rparr> else r)
                rows,
      calls = [QueryGet i, Add, Commit]\<rparr>"
proof -
  from bind_param_truthy [OF assms(3,4)] have "b' \<noteq> JNull" by simp
  moreover from assms(1) have "msg_id m = i" by (simp add: query_get_Some)
  ultimately show ?thesis
    using assms(3,4,5) update_message_present [OF assms(1,2), of fmt e]
    by (cases m) (simp add: update_row_def)
qed


lemma find_updated:
  assumes "find (\<lambda>r. msg_id r = i) rows = Some m" and "\<And>r. msg_id (f r) = msg_id r"
  shows "find (\<lambda>r. msg_id r = i) (map (\<lambda>r. if msg_id r = i then f r else r) rows) = Some (f m)"
  using assms by (induction rows) (auto split: if_splits)

lemma query_get_updated:
  assumes "query_get i rows = Inr (Some m)"
  shows "query_get i (map (\<lambda>r. if msg_id r = i then r\<lparr>body := b, updated_at := Some t\<rparr> else r) rows)
     = Inr (Some (m\<lparr>body := b, updated_at := Some t\<rparr>))"
proof -
  from assms have fit: "fits_int64 i" and f: "find (\<lambda>r. msg_id r = i) rows = Some m"
    by (simp_all add: query_get_def split: if_splits)
  have "find (\<lambda>r. msg_id r = i)
          (map (\<lambda>r. if msg_id r = i then (\<lambda>r. r\<lparr>body := b, updated_at := Some t\<rparr>) r else r) rows)
        = Some ((\<lambda>r. r\<lparr>body := b, updated_at := Some t\<rparr>) m)"
    using f by (rule find_updated) simp
  with fit show ?thesis by (simp add: query_get_def)
qed

lemma restamp:
  "map (\<lambda>r. if msg_id r = i then r\<lparr>body := b, updated_at := Some t2\<rparr> else r)
     (map (\<lambda>r. if msg_id r = i then r\<lparr>body := b, updated_at := Some t1\<rparr> else r) rows)
   = map (\<lambda>r. if msg_id r = i then r\<lparr>body := b, updated_at := Some t2\<rparr> else r) rows"
  by (induction rows) simp_all

lemma erase_stamp:
  "map (\<lambda>r. r\<lparr>updated_at := None\<rparr>)
     (map (\<lambda>r. if msg_id r = i then r\<lparr>body := b, updated_at := Some t2\<rparr> else r) rows)
   = map (\<lambda>r. r\<lparr>updated_at := None\<rparr>)
     (map (\<lambda>r. if msg_id r = i then r\<lparr>body := b, updated_at := Some t1\<rparr> else r) rows)"
  by (induction rows) simp_all

lemma others_same:
  assumes "j < length rows" and "msg_id (rows ! j) \<noteq> i"
  shows "map (\<lambda>r. if msg_id r = i then r\<lparr>body := b, updated_at := Some t2\<rparr> else r) rows ! j
       = map (\<lambda>r. if msg_id r = i then r\<lparr>body := b, updated_at := Some t1\<rparr> else r) rows ! j"
  using assms by simp

lemma stamped:
  assumes "r \<in> set (map (\<lambda>r. if msg_id r = i then r\<lparr>body := b, updated_at := Some t\<rparr> else r) rows)"
      and "msg_id r = i"
  shows "updated_at r = Some t \<and> body r = b"
  using assms
proof (induction rows)
  case Nil
  then show ?case by simp
next
  case (Cons x xs)
  show ?case
  proof (cases "msg_id x = i")
    case True
    with Cons show ?thesis by fastforce
  next
    case False
    with Cons show ?thesis by fastforce
  qed
qed





lemma truthy_not_empty: "truthy v \<Longrightarrow> v \<noteq> JNull \<and> v \<noteq> JStr ''''"
  by auto

lemma create_message_store:
  "store (create_message fmt e data rows) = rows
 \<or> (\<exists>b u. truthy b \<and> truthy u
      \<and> store (create_message fmt e data rows)
          = rows @ [\<lparr>msg_id = next_id rows, body = b, username = u,
                      created_at = Some (now e), updated_at = None\<rparr>])"
proof (cases "\<exists>kvs. data = JObj kvs")
  case False
  then show ?thesis using create_message_not_obj [of data fmt e rows] by simp
next
  case True
  then obtain kvs where d: "data = JObj kvs" by auto
  show ?thesis
  proof (cases "map_of (rev kvs) ''body'' = None \<or> map_of (rev kvs) ''username'' = None")
    case True
    then show ?thesis by (simp add: d create_message_missing)
  next
    case False
    then obtain b u where bu:
      "map_of (rev kvs) ''body'' = Some b" "map_of (rev kvs) ''username'' = Some u"
      by auto
    show ?thesis
    proof (cases "truthy b \<and> truthy u \<and> db_fault e = None
        \<and> (\<exists>b'. bind_param b = Inr b') \<and> (\<exists>u'. bind_param u = Inr u')")
      case True
      then obtain b' u' where bb: "bind_param b = Inr b'" "bind_param u = Inr u'" by auto
      from True bb have "insert_message e b u rows =
           Inr \<lparr>msg_id = next_id rows, body = b', username = u',
                created_at = Some (now e), updated_at = None\<rparr>"
        by (simp add: insert_message_ok)
      moreover from True bb have "truthy b'" "truthy u'"
        using bind_param_truthy by blast+
      ultimately show ?thesis
        using True unfolding d create_message_present [OF bu] by auto
    next
      case False
      then have "\<not> (truthy b \<and> truthy u) \<or> (\<exists>x. insert_message e b u rows = Inl x)"
        by (cases "bind_param b"; cases "bind_param u")
           (auto simp add: insert_message_def split: option.splits)
      then show ?thesis
        unfolding d create_message_present [OF bu]
        by (auto split: db_exn.splits)
    qed
  qed
qed

lemma update_message_store:
  "store (update_message fmt e i data rows) = rows
 \<or> (\<exists>b. truthy b
      \<and> store (update_message fmt e i data rows)
          = map (\<lambda>r. if msg_id r = i then r\<lparr>body := b, updated_at := Some (now e)\<rparr> else r) rows)"
proof (cases "\<exists>kvs. data = JObj kvs")
  case False
  then show ?thesis using update_message_not_obj [of data fmt e i rows] by simp
next
  case True
  then obtain kvs where d: "data = JObj kvs" by auto
  show ?thesis
  proof (cases "query_get i rows")
    case (Inl x)
    then show ?thesis by (simp add: update_message_def)
  next
    case (Inr found)
    show ?thesis
    proof (cases found)
      case None
      with Inr show ?thesis by (simp add: update_message_unknown)
    next
      case (Some m)
      with Inr have q: "query_get i rows = Inr (Some m)" by simp
      show ?thesis
      proof (cases "map_of (rev kvs) ''body''")
        case None
        then show ?thesis by (simp add: d update_message_missing [OF q])
      next
        case b: (Some b)
        show ?thesis
        proof (cases "truthy b \<and> db_fault e = None \<and> (\<exists>b'. bind_param b = Inr b')")
          case True
          then obtain b' where bb: "bind_param b = Inr b'" by auto
          with True have "truthy b'" using bind_param_truthy by blast
          with True bb show ?thesis
            by (auto simp add: d update_message_ok [OF q b _ bb])
        next
          case False
          then have "\<not> truthy b
              \<or> (\<exists>x. update_row e (m\<lparr>body := b, updated_at := Some (now e)\<rparr>) rows = Inl x)"
            by (cases "bind_param b") (auto simp add: update_row_def split: option.splits)
          then show ?thesis
            unfolding d update_message_present [OF q b]
            by (auto split: db_exn.splits)
        qed
      qed
    qed
  qed
qed

lemma delete_message_store:
  "set (store (delete_message e i rows)) \<subseteq> set rows"
  by (auto simp add: delete_message_def delete_row_def split: option.splits sum.splits)

lemma get_messages_store: "store (get_messages fmt e rows) = rows"
  by (simp add: get_messages_def split: option.splits)

lemmas handler_defs =
  create_message_def update_message_def delete_message_def get_messages_def
  query_get_def query_all_ordered_def insert_message_def update_row_def delete_row_def
  next_id_def fits_int64_def str_int_def Let_def error_texts

section \<open>The table stays in primary-key order\<close>

text \<open>
  Every route leaves a table that is in strictly ascending order of \<open>msg_id\<close> in that
  order; in particular the ids stay distinct.
\<close>

lemma next_id_greater:
  assumes "r \<in> set rows"
  shows "msg_id r < next_id rows"
proof -
  from assms have "msg_id r \<le> Max (set (map msg_id rows))" by simp
  moreover from assms have "rows \<noteq> []" by auto
  ultimately show ?thesis by (simp add: next_id_def)
qed

lemma delete_message_store_eq:
  "store (delete_message e i rows) = rows
 \<or> store (delete_message e i rows) = filter (\<lambda>r. msg_id r \<noteq> i) rows"
  by (simp add: delete_message_def delete_row_def split: option.splits sum.splits)

lemma primary_key_order_kept:
  assumes "sorted_wrt (<) (map msg_id rows)"
  shows "sorted_wrt (<) (map msg_id (store (create_message fmt e data rows)))
       \<and> sorted_wrt (<) (map msg_id (store (update_message fmt e i data rows)))
       \<and> sorted_wrt (<) (map msg_id (store (delete_message e i rows)))
       \<and> sorted_wrt (<) (map msg_id (store (get_messages fmt e rows)))"
proof (intro conjI)
  from create_message_store [of fmt e data rows] assms
  show "sorted_wrt (<) (map msg_id (store (create_message fmt e data rows)))"
    by (elim disjE exE conjE) (simp_all add: sorted_wrt_append next_id_greater)
  have ids: "msg_id \<circ> (\<lambda>r. if msg_id r = i then r\<lparr>body := b, updated_at := t\<rparr> else r) = msg_id"
    for b t
    by (rule ext) simp
  from update_message_store [of fmt e i data rows] assms
  show "sorted_wrt (<) (map msg_id (store (update_message fmt e i data rows)))"
    by (elim disjE exE conjE) (simp_all add: ids)
  from assms have "sorted_wrt (\<lambda>a b. msg_id a < msg_id b) (filter (\<lambda>r. msg_id r \<noteq> i) rows)"
    by (simp add: sorted_wrt_map sorted_wrt_filter)
  with delete_message_store_eq [of e i rows] assms
  show "sorted_wrt (<) (map msg_id (store (delete_message e i rows)))"
    by (elim disjE) (simp_all add: sorted_wrt_map)
  from assms show "sorted_wrt (<) (map msg_id (store (get_messages fmt e rows)))"
    by (simp add: get_messages_store)
qed

section \<open>Validation and the order of store access\<close>

text \<open>
  Claim C1, as amended. \<^verbatim>\<open>create_message\<close> validates before any call on the
  session: a request object whose \<open>body\<close> or \<open>username\<close> is missing or falsy gets
  400, the table is unchanged and no session call is made; whenever the handler does call
  the session, both fields were present and truthy. \<^verbatim>\<open>update_message\<close> looks the
  id up first, whatever the payload: an id that does not fit 64 bits makes the lookup
  raise \<^verbatim>\<open>OverflowError\<close>, which escapes the handler, and an id that the lookup does
  not find gets 404; for a known id a missing or falsy \<open>body\<close> gets 400 with the table
  unchanged and the lookup as the only call; the handler adds to the session only when
  \<open>body\<close> was present and truthy.
\<close>

theorem validation_precedes_store:
  "(map_of (rev kvs) ''body'' = None \<or> (\<exists>v. map_of (rev kvs) ''body'' = Some v \<and> \<not> truthy v)
      \<or> map_of (rev kvs) ''username'' = None
      \<or> (\<exists>v. map_of (rev kvs) ''username'' = Some v \<and> \<not> truthy v)
    \<longrightarrow> create_message fmt e (JObj kvs) rows =
          \<lparr>result = Inr \<lparr>status = 400, payload = JObj [(''error'', JStr ''Bad Request'')]\<rparr>,
           store = rows, calls = []\<rparr>)
 \<and> (calls (create_message fmt e data rows) \<noteq> []
    \<longrightarrow> (\<exists>kvs b u. data = JObj kvs \<and> map_of (rev kvs) ''body'' = Some b \<and> truthy b
          \<and> map_of (rev kvs) ''username'' = Some u \<and> truthy u))
 \<and> (\<not> fits_int64 i
    \<longrightarrow> update_message fmt e i data rows =
          \<lparr>result = Inl OverflowError, store = rows, calls = [QueryGet i]\<rparr>)
 \<and> (query_get i rows = Inr None
    \<longrightarrow> update_message fmt e i data rows =
          \<lparr>result = Inr \<lparr>status = 404, payload = JObj [(''error'', JStr ''Resource not found'')]\<rparr>,
           store = rows, calls = [QueryGet i]\<rparr>)
 \<and> ((\<exists>m. query_get i rows = Inr (Some m))
      \<and> (map_of (rev kvs) ''body'' = None \<or> (\<exists>v. map_of (rev kvs) ''body'' = Some v \<and> \<not> truthy v))
    \<longrightarrow> update_message fmt e i (JObj kvs) rows =
          \<lparr>result = Inr \<lparr>status = 400, payload = JObj [(''error'', JStr ''Bad Request'')]\<rparr>,
           store = rows, calls = [QueryGet i]\<rparr>)
 \<and> (Add \<in> set (calls (update_message fmt e i data rows))
    \<longrightarrow> (\<exists>kvs b. data = JObj kvs \<and> map_of (rev kvs) ''body'' = Some b \<and> truthy b))"
proof (intro conjI impI)
  assume inv: "map_of (rev kvs) ''body'' = None \<or> (\<exists>v. map_of (rev kvs) ''body'' = Some v \<and> \<not> truthy v)
      \<or> map_of (rev kvs) ''username'' = None
      \<or> (\<exists>v. map_of (rev kvs) ''username'' = Some v \<and> \<not> truthy v)"
  show "create_message fmt e (JObj kvs) rows = rejected rows []"
  proof (cases "map_of (rev kvs) ''body'' = None \<or> map_of (rev kvs) ''username'' = None")
    case True
    then show ?thesis by (rule create_message_missing)
  next
    case False
    then obtain b u where bu:
      "map_of (rev kvs) ''body'' = Some b" "map_of (rev kvs) ''username'' = Some u"
      by auto
    with inv have "\<not> (truthy b \<and> truthy u)" by auto
    then show ?thesis by (auto simp add: create_message_present [OF bu])
  qed
next
  assume touched: "calls (create_message fmt e data rows) \<noteq> []"
  then obtain kvs where d: "data = JObj kvs"
    using create_message_not_obj [of data fmt e rows] by auto
  have "\<not> (map_of (rev kvs) ''body'' = None \<or> map_of (rev kvs) ''username'' = None)"
  proof
    assume "map_of (rev kvs) ''body'' = None \<or> map_of (rev kvs) ''username'' = None"
    then have "create_message fmt e (JObj kvs) rows = rejected rows []"
      by (rule create_message_missing)
    with touched d show False by simp
  qed
  then obtain b u where bu:
    "map_of (rev kvs) ''body'' = Some b" "map_of (rev kvs) ''username'' = Some u"
    by auto
  from touched d have "truthy b \<and> truthy u"
    by (simp add: create_message_present [OF bu] split: if_splits)
  with d bu show "\<exists>kvs b u. data = JObj kvs \<and> map_of (rev kvs) ''body'' = Some b \<and> truthy b
          \<and> map_of (rev kvs) ''username'' = Some u \<and> truthy u"
    by simp
next
  assume "\<not> fits_int64 i"
  then show "update_message fmt e i data rows =
          \<lparr>result = Inl OverflowError, store = rows, calls = [QueryGet i]\<rparr>"
    by (rule update_message_overflow)
next
  assume "query_get i rows = Inr None"
  then show "update_message fmt e i data rows =
          \<lparr>result = Inr \<lparr>status = 404, payload = JObj [(''error'', JStr ''Resource not found'')]\<rparr>,
           store = rows, calls = [QueryGet i]\<rparr>"
    by (rule update_message_unknown)
next
  assume a: "(\<exists>m. query_get i rows = Inr (Some m))
      \<and> (map_of (rev kvs) ''body'' = None \<or> (\<exists>v. map_of (rev kvs) ''body'' = Some v \<and> \<not> truthy v))"
  then obtain m where m: "query_get i rows = Inr (Some m)" by auto
  from a show "update_message fmt e i (JObj kvs) rows = rejected rows [QueryGet i]"
    by (auto simp add: update_message_missing [OF m] update_message_present [OF m])
next
  assume added: "Add \<in> set (calls (update_message fmt e i data rows))"
  then obtain kvs where d: "data = JObj kvs"
    using update_message_not_obj [of data fmt e i rows] by auto
  have "\<exists>m. query_get i rows = Inr (Some m)"
  proof (cases "query_get i rows")
    case (Inl x)
    with added show ?thesis by (simp add: update_message_def)
  next
    case (Inr found)
    with added update_message_unknown [of i rows fmt e data] show ?thesis
      by (cases found) auto
  qed
  then obtain m where m: "query_get i rows = Inr (Some m)" by auto
  from added d obtain b where b: "map_of (rev kvs) ''body'' = Some b"
    using update_message_missing [OF m, of kvs fmt e] by (cases "map_of (rev kvs) ''body''") auto
  from added d have "truthy b"
    by (simp add: update_message_present [OF m b] split: if_splits)
  with d b show "\<exists>kvs b. data = JObj kvs \<and> map_of (rev kvs) ''body'' = Some b \<and> truthy b"
    by simp
qed

theorem validation_precedes_store_witness:
  "map_of (rev [(''body'', JStr ''''), (''username'', JStr ''x'')]) ''body'' = Some (JStr '''')
 \<and> create_message str_nat \<lparr>now = 7, db_fault = None\<rparr>
       (JObj [(''body'', JStr ''''), (''username'', JStr ''x'')])
       [\<lparr>msg_id = 1, body = JStr ''hi'', username = JStr ''ana'',
          created_at = Some 3, updated_at = None\<rparr>]
     = \<lparr>result = Inr \<lparr>status = 400, payload = JObj [(''error'', JStr ''Bad Request'')]\<rparr>,
        store = [\<lparr>msg_id = 1, body = JStr ''hi'', username = JStr ''ana'',
                   created_at = Some 3, updated_at = None\<rparr>],
        calls = []\<rparr>
 \<and> calls (create_message str_nat \<lparr>now = 7, db_fault = None\<rparr>
       (JObj [(''body'', JStr ''yo''), (''username'', JStr ''x'')]) []) = [Add, Commit]
 \<and> query_get 2 [\<lparr>msg_id = 1, body = JStr ''hi'', username = JStr ''ana'',
                   created_at = Some 3, updated_at = None\<rparr>] = Inr None
 \<and> update_message str_nat \<lparr>now = 7, db_fault = None\<rparr> 2 (JObj [(''body'', JStr '''')])
       [\<lparr>msg_id = 1, body = JStr ''hi'', username = JStr ''ana'',
          created_at = Some 3, updated_at = None\<rparr>]
     = \<lparr>result = Inr \<lparr>status = 404,
                         payload = JObj [(''error'', JStr ''Resource not found'')]\<rparr>,
        store = [\<lparr>msg_id = 1, body = JStr ''hi'', username = JStr ''ana'',
                   created_at = Some 3, updated_at = None\<rparr>],
        calls = [QueryGet 2]\<rparr>
 \<and> query_get 1 [\<lparr>msg_id = 1, body = JStr ''hi'', username = JStr ''ana'',
                   created_at = Some 3, updated_at = None\<rparr>]
     = Inr (Some \<lparr>msg_id = 1, body = JStr ''hi'', username = JStr ''ana'',
                   created_at = Some 3, updated_at = None\<rparr>)
 \<and> update_message str_nat \<lparr>now = 7, db_fault = None\<rparr> 1
       (JObj [(''body'', JStr ''''), (''username'', JStr ''x'')])
       [\<lparr>msg_id = 1, body = JStr ''hi'', username = JStr ''ana'',
          created_at = Some 3, updated_at = None\<rparr>]
     = \<lparr>result = Inr \<lparr>status = 400, payload = JObj [(''error'', JStr ''Bad Request'')]\<rparr>,
        store = [\<lparr>msg_id = 1, body = JStr ''hi'', username = JStr ''ana'',
                   created_at = Some 3, updated_at = None\<rparr>],
        calls = [QueryGet 1]\<rparr>
 \<and> calls (update_message str_nat \<lparr>now = 7, db_fault = None\<rparr> 1 (JObj [(''body'', JStr ''yo'')])
       [\<lparr>msg_id = 1, body = JStr ''hi'', username = JStr ''ana'',
          created_at = Some 3, updated_at = None\<rparr>]) = [QueryGet 1, Add, Commit]
 \<and> update_message str_nat \<lparr>now = 7, db_fault = None\<rparr> 9223372036854775808
       (JObj [(''body'', JStr '''')])
       [\<lparr>msg_id = 1, body = JStr ''hi'', username = JStr ''ana'',
          created_at = Some 3, updated_at = None\<rparr>]
     = \<lparr>result = Inl OverflowError,
        store = [\<lparr>msg_id = 1, body = JStr ''hi'', username = JStr ''ana'',
                   created_at = Some 3, updated_at = None\<rparr>],
        calls = [QueryGet 9223372036854775808]\<rparr>"
  using validation_precedes_store
      [of "[(''body'', JStr ''''), (''username'', JStr ''x'')]" str_nat
          "\<lparr>now = 7, db_fault = None\<rparr>"
          "[\<lparr>msg_id = 1, body = JStr ''hi'', username = JStr ''ana'',
              created_at = Some 3, updated_at = None\<rparr>]"
          "JObj [(''body'', JStr '''')]" 2]
    validation_precedes_store
      [of "[(''body'', JStr ''''), (''username'', JStr ''x'')]" str_nat
          "\<lparr>now = 7, db_fault = None\<rparr>"
          "[\<lparr>msg_id = 1, body = JStr ''hi'', username = JStr ''ana'',
              created_at = Some 3, updated_at = None\<rparr>]"
          "JObj [(''body'', JStr ''yo'')]" 1]
    validation_precedes_store
      [of "[(''body'', JStr ''''), (''username'', JStr ''x'')]" str_nat
          "\<lparr>now = 7, db_fault = None\<rparr>"
          "[\<lparr>msg_id = 1, body = JStr ''hi'', username = JStr ''ana'',
              created_at = Some 3, updated_at = None\<rparr>]"
          "JObj [(''body'', JStr '''')]" 9223372036854775808]
  by (simp add: handler_defs)

text \<open>
  The claim as stated fails for PATCH: on an empty table, a PATCH of id 1 with an empty
  \<open>body\<close> is answered 404 by the lookup, which is reached before the validation.
\<close>

theorem validation_precedes_store_counterexample:
  "update_message str_nat \<lparr>now = 7, db_fault = None\<rparr> 1 (JObj [(''body'', JStr '''')]) []
     = \<lparr>result = Inr \<lparr>status = 404,
                         payload = JObj [(''error'', JStr ''Resource not found'')]\<rparr>,
        store = [], calls = [QueryGet 1]\<rparr>"
  by (simp add: handler_defs)

section \<open>Failures of the persistence layer\<close>

text \<open>
  Claim C2, as amended. When the commit of a valid POST, or of a valid PATCH of an existing
  id, raises \<^verbatim>\<open>IntegrityError\<close>, the handler rolls the session back, leaves the table
  unchanged and answers 400 with the JSON object whose single field is \<open>error\<close>.
\<close>

theorem integrity_error_is_400:
  assumes "db_fault e = Some (IntegrityError s)"
  shows "(map_of (rev kvs) ''body'' = Some b \<and> truthy b
          \<and> map_of (rev kvs) ''username'' = Some u \<and> truthy u
        \<longrightarrow> create_message fmt e (JObj kvs) rows =
              \<lparr>result = Inr \<lparr>status = 400, payload = JObj [(''error'', JStr ''Bad Request'')]\<rparr>,
               store = rows, calls = [Add, Commit, Rollback]\<rparr>)
       \<and> (query_get i rows = Inr (Some m) \<and> map_of (rev kvs) ''body'' = Some b \<and> truthy b
        \<longrightarrow> update_message fmt e i (JObj kvs) rows =
              \<lparr>result = Inr \<lparr>status = 400, payload = JObj [(''error'', JStr ''Bad Request'')]\<rparr>,
               store = rows, calls = [QueryGet i, Add, Commit, Rollback]\<rparr>)"
  using assms
  by (auto simp add: create_message_present update_message_present insert_message_def
        update_row_def)

theorem integrity_error_is_400_witness:
  "db_fault \<lparr>now = 7, db_fault = Some (IntegrityError ''constraint failed'')\<rparr>
     = Some (IntegrityError ''constraint failed'')
 \<and> create_message str_nat \<lparr>now = 7, db_fault = Some (IntegrityError ''constraint failed'')\<rparr>
       (JObj [(''body'', JStr ''hi''), (''username'', JStr ''ana'')])
       [\<lparr>msg_id = 1, body = JStr ''yo'', username = JStr ''bob'',
          created_at = Some 3, updated_at = None\<rparr>]
     = \<lparr>result = Inr \<lparr>status = 400, payload = JObj [(''error'', JStr ''Bad Request'')]\<rparr>,
        store = [\<lparr>msg_id = 1, body = JStr ''yo'', username = JStr ''bob'',
                   created_at = Some 3, updated_at = None\<rparr>],
        calls = [Add, Commit, Rollback]\<rparr>
 \<and> update_message str_nat \<lparr>now = 7, db_fault = Some (IntegrityError ''constraint failed'')\<rparr> 1
       (JObj [(''body'', JStr ''hi''), (''username'', JStr ''ana'')])
       [\<lparr>msg_id = 1, body = JStr ''yo'', username = JStr ''bob'',
          created_at = Some 3, updated_at = None\<rparr>]
     = \<lparr>result = Inr \<lparr>status = 400, payload = JObj [(''error'', JStr ''Bad Request'')]\<rparr>,
        store = [\<lparr>msg_id = 1, body = JStr ''yo'', username = JStr ''bob'',
                   created_at = Some 3, updated_at = None\<rparr>],
        calls = [QueryGet 1, Add, Commit, Rollback]\<rparr>"
  using integrity_error_is_400
      [of "\<lparr>now = 7, db_fault = Some (IntegrityError ''constraint failed'')\<rparr>"
          "''constraint failed''"
          "[(''body'', JStr ''hi''), (''username'', JStr ''ana'')]" "JStr ''hi''" "JStr ''ana''"
          str_nat
          "[\<lparr>msg_id = 1, body = JStr ''yo'', username = JStr ''bob'',
              created_at = Some 3, updated_at = None\<rparr>]"
          1
          "\<lparr>msg_id = 1, body = JStr ''yo'', username = JStr ''bob'',
              created_at = Some 3, updated_at = None\<rparr>"]
  by (simp add: handler_defs)

text \<open>
  The claim as stated fails: the answer to an integrity error at the commit of a valid
  POST is 400, not 500.
\<close>

theorem integrity_error_is_400_counterexample:
  "result (create_message str_nat
      \<lparr>now = 7, db_fault = Some (IntegrityError ''constraint failed'')\<rparr>
      (JObj [(''body'', JStr ''hi''), (''username'', JStr ''ana'')]) [])
     = Inr \<lparr>status = 400, payload = JObj [(''error'', JStr ''Bad Request'')]\<rparr>
 \<and> result (create_message str_nat
      \<lparr>now = 7, db_fault = Some (IntegrityError ''constraint failed'')\<rparr>
      (JObj [(''body'', JStr ''hi''), (''username'', JStr ''ana'')]) [])
     \<noteq> Inr \<lparr>status = 500, payload = JObj [(''error'', JStr ''Internal Server Error'')]\<rparr>"
  by (simp add: handler_defs)

text \<open>Any other exception at the commit is rolled back and answered 500.\<close>

lemma other_error_is_500:
  assumes "db_fault e = Some (OtherError s)"
  shows "(map_of (rev kvs) ''body'' = Some b \<and> truthy b
          \<and> map_of (rev kvs) ''username'' = Some u \<and> truthy u
        \<longrightarrow> create_message fmt e (JObj kvs) rows = failed rows [Add, Commit, Rollback])
       \<and> (query_get i rows = Inr (Some m) \<and> map_of (rev kvs) ''body'' = Some b \<and> truthy b
        \<longrightarrow> update_message fmt e i (JObj kvs) rows
              = failed rows [QueryGet i, Add, Commit, Rollback])"
  using assms
  by (auto simp add: create_message_present update_message_present insert_message_def
        update_row_def)

section \<open>Listing\<close>

text \<open>
  Claim C3. When the query does not raise, GET /messages answers 200 with the array of the
  serialised rows of \<open>query_all_ordered\<close>: a rearrangement of all the rows of the table
  (each exactly once), sorted by \<open>created_at\<close> ascending, in which the rows with one and
  the same \<open>created_at\<close> keep the order of the table, which is the order of their ids
  when the table is in primary-key order. For the empty table the array is empty.
\<close>

theorem get_messages_sorted:
  assumes "db_fault e = None"
  shows "get_messages fmt e rows =
           \<lparr>result = Inr \<lparr>status = 200,
                           payload = JArr (map (to_dict fmt) (query_all_ordered rows))\<rparr>,
            store = rows, calls = [QueryAll]\<rparr>
       \<and> mset (query_all_ordered rows) = mset rows
       \<and> sorted (map created_at (query_all_ordered rows))
       \<and> filter (\<lambda>m. created_at m = t) (query_all_ordered rows)
           = filter (\<lambda>m. created_at m = t) rows
       \<and> (sorted_wrt (<) (map msg_id rows)
          \<longrightarrow> sorted_wrt (\<lambda>a b. created_at a = created_at b \<longrightarrow> msg_id a < msg_id b)
                (query_all_ordered rows))
       \<and> (rows = [] \<longrightarrow> result (get_messages fmt e rows) = Inr \<lparr>status = 200, payload = JArr []\<rparr>)"
proof (intro conjI impI)
  show "get_messages fmt e rows =
           \<lparr>result = Inr \<lparr>status = 200,
                           payload = JArr (map (to_dict fmt) (query_all_ordered rows))\<rparr>,
            store = rows, calls = [QueryAll]\<rparr>"
    using assms by (simp add: get_messages_def)
  show "mset (query_all_ordered rows) = mset rows"
    by (simp add: query_all_ordered_def)
  show "sorted (map created_at (query_all_ordered rows))"
    by (simp add: query_all_ordered_def)
  show "filter (\<lambda>m. created_at m = t) (query_all_ordered rows)
           = filter (\<lambda>m. created_at m = t) rows"
    by (simp add: query_all_ordered_def sort_key_stable)
next
  assume "sorted_wrt (<) (map msg_id rows)"
  then have "sorted_wrt (\<lambda>a b. msg_id a < msg_id b) rows"
    by (simp add: sorted_wrt_map)
  then show "sorted_wrt (\<lambda>a b. created_at a = created_at b \<longrightarrow> msg_id a < msg_id b)
                (query_all_ordered rows)"
    unfolding query_all_ordered_def by (rule sort_key_ties)
next
  assume "rows = []"
  then show "result (get_messages fmt e rows) = Inr \<lparr>status = 200, payload = JArr []\<rparr>"
    using assms by (simp add: get_messages_def query_all_ordered_def)
qed

theorem get_messages_sorted_witness:
  "db_fault \<lparr>now = 9, db_fault = None\<rparr> = None
 \<and> sorted_wrt (<) (map msg_id
       [\<lparr>msg_id = 1, body = JStr ''a'', username = JStr ''ana'', created_at = Some 5, updated_at = None\<rparr>,
        \<lparr>msg_id = 2, body = JStr ''b'', username = JStr ''bob'', created_at = Some 2, updated_at = None\<rparr>,
        \<lparr>msg_id = 3, body = JStr ''c'', username = JStr ''cy'', created_at = Some 5, updated_at = Some 6\<rparr>])
 \<and> result (get_messages str_nat \<lparr>now = 9, db_fault = None\<rparr>
       [\<lparr>msg_id = 1, body = JStr ''a'', username = JStr ''ana'', created_at = Some 5, updated_at = None\<rparr>,
        \<lparr>msg_id = 2, body = JStr ''b'', username = JStr ''bob'', created_at = Some 2, updated_at = None\<rparr>,
        \<lparr>msg_id = 3, body = JStr ''c'', username = JStr ''cy'', created_at = Some 5, updated_at = Some 6\<rparr>])
   = Inr \<lparr>status = 200, payload = JArr
       [JObj [(''body'', JStr ''b''), (''created_at'', JStr ''2''), (''id'', JInt 2),
              (''updated_at'', JNull), (''username'', JStr ''bob'')],
        JObj [(''body'', JStr ''a''), (''created_at'', JStr ''5''), (''id'', JInt 1),
              (''updated_at'', JNull), (''username'', JStr ''ana'')],
        JObj [(''body'', JStr ''c''), (''created_at'', JStr ''5''), (''id'', JInt 3),
              (''updated_at'', JStr ''6''), (''username'', JStr ''cy'')]]\<rparr>
 \<and> result (get_messages str_nat \<lparr>now = 9, db_fault = None\<rparr> [])
   = Inr \<lparr>status = 200, payload = JArr []\<rparr>"
proof -
  let ?e = "\<lparr>now = 9, db_fault = None\<rparr>"
  let ?rows =
    "[\<lparr>msg_id = 1, body = JStr ''a'', username = JStr ''ana'', created_at = Some 5, updated_at = None\<rparr>,
      \<lparr>msg_id = 2, body = JStr ''b'', username = JStr ''bob'', created_at = Some 2, updated_at = None\<rparr>,
      \<lparr>msg_id = 3, body = JStr ''c'', username = JStr ''cy'', created_at = Some 5, updated_at = Some 6\<rparr>]"
  have e: "db_fault ?e = None" by simp
  have ids: "sorted_wrt (<) (map msg_id ?rows)" by simp
  have ord: "query_all_ordered ?rows =
    [\<lparr>msg_id = 2, body = JStr ''b'', username = JStr ''bob'', created_at = Some 2, updated_at = None\<rparr>,
     \<lparr>msg_id = 1, body = JStr ''a'', username = JStr ''ana'', created_at = Some 5, updated_at = None\<rparr>,
     \<lparr>msg_id = 3, body = JStr ''c'', username = JStr ''cy'', created_at = Some 5, updated_at = Some 6\<rparr>]"
    by (simp add: query_all_ordered_def)
  from get_messages_sorted [OF e, of str_nat ?rows]
  have "result (get_messages str_nat ?e ?rows) =
          Inr \<lparr>status = 200, payload = JArr (map (to_dict str_nat) (query_all_ordered ?rows))\<rparr>"
    by simp
  then have r1: "result (get_messages str_nat ?e ?rows) =
     Inr \<lparr>status = 200, payload = JArr
       [JObj [(''body'', JStr ''b''), (''created_at'', JStr ''2''), (''id'', JInt 2),
              (''updated_at'', JNull), (''username'', JStr ''bob'')],
        JObj [(''body'', JStr ''a''), (''created_at'', JStr ''5''), (''id'', JInt 1),
              (''updated_at'', JNull), (''username'', JStr ''ana'')],
        JObj [(''body'', JStr ''c''), (''created_at'', JStr ''5''), (''id'', JInt 3),
              (''updated_at'', JStr ''6''), (''username'', JStr ''cy'')]]\<rparr>"
    by (simp add: ord to_dict_def ser_datetime_def str_nat.simps)
  from get_messages_sorted [OF e, of str_nat "[]"]
  have r2: "result (get_messages str_nat ?e []) = Inr \<lparr>status = 200, payload = JArr []\<rparr>"
    by simp
  from e ids r1 r2 show ?thesis by simp
qed

section \<open>Non-empty body and username\<close>

text \<open>
  Claim C4, as amended. The table rejects null: an INSERT with a null \<open>body\<close> or
  \<open>username\<close> raises an exception and stores nothing, an integrity error when both
  values can be bound, and an UPDATE to a null \<open>body\<close> raises an integrity error.
  Non-emptiness is kept by the handlers: if every row of the table has a truthy \<open>body\<close> and
  \<open>username\<close> (so neither null nor the empty string, see \<open>truthy_not_empty\<close>), then
  so has every row of the table after any request to any of the four routes.
\<close>

theorem not_null_at_store_nonempty_by_handlers:
  "(db_fault e = None \<and> (b = JNull \<or> u = JNull)
    \<longrightarrow> (\<exists>x. insert_message e b u rows = Inl x))
 \<and> (db_fault e = None \<and> (b = JNull \<or> u = JNull)
      \<and> (\<exists>b'. bind_param b = Inr b') \<and> (\<exists>u'. bind_param u = Inr u')
    \<longrightarrow> insert_message e b u rows = Inl (IntegrityError ''NOT NULL constraint failed''))
 \<and> (db_fault e = None \<and> body m = JNull
    \<longrightarrow> update_row e m rows = Inl (IntegrityError ''NOT NULL constraint failed''))
 \<and> ((\<forall>r \<in> set rows. truthy (body r) \<and> truthy (username r))
    \<longrightarrow> (\<forall>r \<in> set (store (create_message fmt e data rows)).
            truthy (body r) \<and> truthy (username r))
      \<and> (\<forall>r \<in> set (store (update_message fmt e i data rows)).
            truthy (body r) \<and> truthy (username r))
      \<and> (\<forall>r \<in> set (store (delete_message e i rows)).
            truthy (body r) \<and> truthy (username r))
      \<and> (\<forall>r \<in> set (store (get_messages fmt e rows)).
            truthy (body r) \<and> truthy (username r)))"
proof (intro conjI impI)
  assume "db_fault e = None \<and> (b = JNull \<or> u = JNull)"
  then show "\<exists>x. insert_message e b u rows = Inl x"
    by (cases "bind_param b"; cases "bind_param u") (auto simp add: insert_message_def)
next
  assume "db_fault e = None \<and> (b = JNull \<or> u = JNull)
      \<and> (\<exists>b'. bind_param b = Inr b') \<and> (\<exists>u'. bind_param u = Inr u')"
  then show "insert_message e b u rows = Inl (IntegrityError ''NOT NULL constraint failed'')"
    by (auto simp add: insert_message_def)
next
  assume "db_fault e = None \<and> body m = JNull"
  then show "update_row e m rows = Inl (IntegrityError ''NOT NULL constraint failed'')"
    by (simp add: update_row_def)
next
  assume inv: "\<forall>r \<in> set rows. truthy (body r) \<and> truthy (username r)"
  from create_message_store [of fmt e data rows] inv
  show "\<forall>r \<in> set (store (create_message fmt e data rows)). truthy (body r) \<and> truthy (username r)"
    by (elim disjE exE conjE) simp_all
next
  assume inv: "\<forall>r \<in> set rows. truthy (body r) \<and> truthy (username r)"
  from update_message_store [of fmt e i data rows] inv
  show "\<forall>r \<in> set (store (update_message fmt e i data rows)). truthy (body r) \<and> truthy (username r)"
    by (elim disjE exE conjE) auto
next
  assume inv: "\<forall>r \<in> set rows. truthy (body r) \<and> truthy (username r)"
  with delete_message_store [of e i rows]
  show "\<forall>r \<in> set (store (delete_message e i rows)). truthy (body r) \<and> truthy (username r)"
    by blast
next
  assume inv: "\<forall>r \<in> set rows. truthy (body r) \<and> truthy (username r)"
  then show "\<forall>r \<in> set (store (get_messages fmt e rows)). truthy (body r) \<and> truthy (username r)"
    by (simp add: get_messages_store)
qed

theorem not_null_at_store_nonempty_by_handlers_witness:
  "insert_message \<lparr>now = 7, db_fault = None\<rparr> JNull (JStr ''x'')
     [\<lparr>msg_id = 1, body = JStr ''hi'', username = JStr ''ana'', created_at = Some 3, updated_at = None\<rparr>]
   = Inl (IntegrityError ''NOT NULL constraint failed'')
 \<and> update_row \<lparr>now = 7, db_fault = None\<rparr>
     \<lparr>msg_id = 1, body = JNull, username = JStr ''ana'', created_at = Some 3, updated_at = Some 7\<rparr>
     [\<lparr>msg_id = 1, body = JStr ''hi'', username = JStr ''ana'', created_at = Some 3, updated_at = None\<rparr>]
   = Inl (IntegrityError ''NOT NULL constraint failed'')
 \<and> list_all (\<lambda>r. truthy (body r) \<and> truthy (username r))
     [\<lparr>msg_id = 1, body = JStr ''hi'', username = JStr ''ana'', created_at = Some 3, updated_at = None\<rparr>]
 \<and> list_all (\<lambda>r. truthy (body r) \<and> truthy (username r))
     (store (create_message str_nat \<lparr>now = 7, db_fault = None\<rparr>
        (JObj [(''body'', JStr ''yo''), (''username'', JStr ''bob'')])
        [\<lparr>msg_id = 1, body = JStr ''hi'', username = JStr ''ana'', created_at = Some 3, updated_at = None\<rparr>]))
 \<and> list_all (\<lambda>r. truthy (body r) \<and> truthy (username r))
     (store (update_message str_nat \<lparr>now = 7, db_fault = None\<rparr> 1
        (JObj [(''body'', JStr ''yo''), (''username'', JStr ''bob'')])
        [\<lparr>msg_id = 1, body = JStr ''hi'', username = JStr ''ana'', created_at = Some 3, updated_at = None\<rparr>]))
 \<and> length (store (create_message str_nat \<lparr>now = 7, db_fault = None\<rparr>
        (JObj [(''body'', JStr ''yo''), (''username'', JStr ''bob'')])
        [\<lparr>msg_id = 1, body = JStr ''hi'', username = JStr ''ana'', created_at = Some 3, updated_at = None\<rparr>]))
   = 2"
proof -
  let ?e = "\<lparr>now = 7, db_fault = None\<rparr>"
  let ?r1 = "\<lparr>msg_id = 1, body = JStr ''hi'', username = JStr ''ana'', created_at = Some 3, updated_at = None\<rparr>"
  let ?m = "\<lparr>msg_id = 1, body = JNull, username = JStr ''ana'', created_at = Some 3, updated_at = Some 7\<rparr>"
  let ?data = "JObj [(''body'', JStr ''yo''), (''username'', JStr ''bob'')]"
  note T = not_null_at_store_nonempty_by_handlers
             [of ?e JNull "JStr ''x''" "[?r1]" ?m str_nat ?data 1]
  have h1: "db_fault ?e = None \<and> (JNull = JNull \<or> JStr ''x'' = JNull)
      \<and> (\<exists>b'. bind_param JNull = Inr b') \<and> (\<exists>u'. bind_param (JStr ''x'') = Inr u')"
    by simp
  have h2: "db_fault ?e = None \<and> body ?m = JNull" by simp
  have h3: "\<forall>r \<in> set [?r1]. truthy (body r) \<and> truthy (username r)" by simp
  note a = T [THEN conjunct2, THEN conjunct1, THEN mp, OF h1]
  note b = T [THEN conjunct2, THEN conjunct2, THEN conjunct1, THEN mp, OF h2]
  note c = T [THEN conjunct2, THEN conjunct2, THEN conjunct2, THEN mp, OF h3]
  from h3 have i0: "list_all (\<lambda>r. truthy (body r) \<and> truthy (username r)) [?r1]" by simp
  from c have i1: "list_all (\<lambda>r. truthy (body r) \<and> truthy (username r))
      (store (create_message str_nat ?e ?data [?r1]))"
    unfolding list_all_iff by (elim conjE)
  from c have i2: "list_all (\<lambda>r. truthy (body r) \<and> truthy (username r))
      (store (update_message str_nat ?e 1 ?data [?r1]))"
    unfolding list_all_iff by (elim conjE)
  have l: "length (store (create_message str_nat ?e ?data [?r1])) = 2"
    by (simp add: handler_defs)
  show ?thesis by (intro conjI a b i0 i1 i2 l)
qed

text \<open>
  The claim as stated fails: the columns are declared \<^verbatim>\<open>nullable=False\<close> and nothing
  more, so an INSERT that bypasses the handler with empty strings is accepted and the
  table then holds a row with an empty \<open>body\<close> and \<open>username\<close>.
\<close>

theorem not_null_at_store_nonempty_by_handlers_counterexample:
  "insert_message \<lparr>now = 7, db_fault = None\<rparr> (JStr '''') (JStr '''') []
     = Inr \<lparr>msg_id = 1, body = JStr '''', username = JStr '''',
            created_at = Some 7, updated_at = None\<rparr>"
  by (simp add: insert_message_def next_id_def)

section \<open>Update\<close>

text \<open>
  Claim C5. A PATCH of an existing id with a truthy \<open>body\<close> whose commit succeeds answers
  200 with the serialised row, and in the table it sets \<open>body\<close> to the new value, as the
  table stores it (\<open>bind_param\<close>: a string as it is), and \<open>updated_at\<close> to the clock
  in the row with that id and changes nothing else: the table keeps its length, every row
  of another id is unchanged, and every row keeps its id, its \<open>username\<close> and its
  \<open>created_at\<close>.
\<close>

theorem update_message_frame:
  assumes "query_get i rows = Inr (Some m)" and "map_of (rev kvs) ''body'' = Some b"
      and "truthy b" and "bind_param b = Inr b'" and "db_fault e = None"
  shows "result (update_message fmt e i (JObj kvs) rows)
           = Inr \<lparr>status = 200,
                  payload = to_dict fmt (m\<lparr>body := b', updated_at := Some (now e)\<rparr>)\<rparr>
       \<and> length (store (update_message fmt e i (JObj kvs) rows)) = length rows
       \<and> (\<forall>j < length rows.
            store (update_message fmt e i (JObj kvs) rows) ! j =
              (if msg_id (rows ! j) = i
               then (rows ! j)\<lparr>body := b', updated_at := Some (now e)\<rparr>
               else rows ! j))
       \<and> map msg_id (store (update_message fmt e i (JObj kvs) rows)) = map msg_id rows
       \<and> map username (store (update_message fmt e i (JObj kvs) rows)) = map username rows
       \<and> map created_at (store (update_message fmt e i (JObj kvs) rows)) = map created_at rows"
  by (simp add: update_message_ok [OF assms] comp_def)

theorem update_message_frame_witness:
  "result (update_message str_nat \<lparr>now = 7, db_fault = None\<rparr> 2 (JObj [(''body'', JStr ''new text'')])
     [\<lparr>msg_id = 1, body = JStr ''hi'', username = JStr ''ana'', created_at = Some 3, updated_at = None\<rparr>,
      \<lparr>msg_id = 2, body = JStr ''yo'', username = JStr ''bob'', created_at = Some 4, updated_at = None\<rparr>])
   = Inr \<lparr>status = 200,
          payload = JObj [(''body'', JStr ''new text''), (''created_at'', JStr ''4''), (''id'', JInt 2),
                          (''updated_at'', JStr ''7''), (''username'', JStr ''bob'')]\<rparr>
 \<and> length (store (update_message str_nat \<lparr>now = 7, db_fault = None\<rparr> 2 (JObj [(''body'', JStr ''new text'')])
     [\<lparr>msg_id = 1, body = JStr ''hi'', username = JStr ''ana'', created_at = Some 3, updated_at = None\<rparr>,
      \<lparr>msg_id = 2, body = JStr ''yo'', username = JStr ''bob'', created_at = Some 4, updated_at = None\<rparr>]))
   = 2
 \<and> store (update_message str_nat \<lparr>now = 7, db_fault = None\<rparr> 2 (JObj [(''body'', JStr ''new text'')])
     [\<lparr>msg_id = 1, body = JStr ''hi'', username = JStr ''ana'', created_at = Some 3, updated_at = None\<rparr>,
      \<lparr>msg_id = 2, body = JStr ''yo'', username = JStr ''bob'', created_at = Some 4, updated_at = None\<rparr>]) ! 0
   = \<lparr>msg_id = 1, body = JStr ''hi'', username = JStr ''ana'', created_at = Some 3, updated_at = None\<rparr>
 \<and> store (update_message str_nat \<lparr>now = 7, db_fault = None\<rparr> 2 (JObj [(''body'', JStr ''new text'')])
     [\<lparr>msg_id = 1, body = JStr ''hi'', username = JStr ''ana'', created_at = Some 3, updated_at = None\<rparr>,
      \<lparr>msg_id = 2, body = JStr ''yo'', username = JStr ''bob'', created_at = Some 4, updated_at = None\<rparr>]) ! 1
   = \<lparr>msg_id = 2, body = JStr ''new text'', username = JStr ''bob'', created_at = Some 4,
      updated_at = Some 7\<rparr>"
proof -
  let ?e = "\<lparr>now = 7, db_fault = None\<rparr>"
  let ?r1 = "\<lparr>msg_id = 1, body = JStr ''hi'', username = JStr ''ana'', created_at = Some 3, updated_at = None\<rparr>"
  let ?r2 = "\<lparr>msg_id = 2, body = JStr ''yo'', username = JStr ''bob'', created_at = Some 4, updated_at = None\<rparr>"
  let ?kvs = "[(''body'', JStr ''new text'')]"
  let ?out = "update_message str_nat ?e 2 (JObj ?kvs) [?r1, ?r2]"
  have q: "query_get 2 [?r1, ?r2] = Inr (Some ?r2)" by (simp add: query_get_def fits_int64_def)
  have k: "map_of (rev ?kvs) ''body'' = Some (JStr ''new text'')" by simp
  have t: "truthy (JStr ''new text'')" by simp
  have bp: "bind_param (JStr ''new text'') = Inr (JStr ''new text'')" by simp
  have e: "db_fault ?e = None" by simp
  note T = update_message_frame [OF q k t bp e, of str_nat]
  from T have r: "result ?out = Inr \<lparr>status = 200,
          payload = JObj [(''body'', JStr ''new text''), (''created_at'', JStr ''4''), (''id'', JInt 2),
                          (''updated_at'', JStr ''7''), (''username'', JStr ''bob'')]\<rparr>"
    by (simp add: to_dict_def ser_datetime_def str_nat.simps)
  from T have l: "length (store ?out) = 2" by simp
  from T have "\<forall>j < length [?r1, ?r2]. store ?out ! j =
              (if msg_id ([?r1, ?r2] ! j) = 2
               then ([?r1, ?r2] ! j)\<lparr>body := JStr ''new text'', updated_at := Some (now ?e)\<rparr>
               else [?r1, ?r2] ! j)"
    by (elim conjE)
  then have n: "store ?out ! 0 = ?r1" "store ?out ! 1 = ?r2\<lparr>body := JStr ''new text'', updated_at := Some 7\<rparr>"
    by simp_all
  from r l n show ?thesis by simp
qed

text \<open>
  Claim C6. Repeating a successful PATCH with the same payload (an existing id, a truthy
  \<open>body\<close> that the table can store, commits that succeed) succeeds again and leaves
  the table as one application leaves it, up to \<open>updated_at\<close>: with \<open>updated_at\<close>
  erased the tables after one and after two applications are equal, the rows of other ids
  are equal outright, the patched row carries the clock reading of the second request,
  and the table after the two requests is the table that the second request alone gives.
\<close>

theorem update_message_idempotent:
  assumes "query_get i rows = Inr (Some m)" and "map_of (rev kvs) ''body'' = Some b"
      and "truthy b" and "bind_param b = Inr b'"
      and "db_fault e1 = None" and "db_fault e2 = None"
  shows "result (update_message fmt e2 i (JObj kvs)
                   (store (update_message fmt e1 i (JObj kvs) rows)))
           = Inr \<lparr>status = 200,
                  payload = to_dict fmt (m\<lparr>body := b', updated_at := Some (now e2)\<rparr>)\<rparr>
       \<and> map (\<lambda>r. r\<lparr>updated_at := None\<rparr>)
             (store (update_message fmt e2 i (JObj kvs)
                       (store (update_message fmt e1 i (JObj kvs) rows))))
           = map (\<lambda>r. r\<lparr>updated_at := None\<rparr>) (store (update_message fmt e1 i (JObj kvs) rows))
       \<and> (\<forall>j < length rows. msg_id (rows ! j) \<noteq> i \<longrightarrow>
            store (update_message fmt e2 i (JObj kvs)
                     (store (update_message fmt e1 i (JObj kvs) rows))) ! j
              = store (update_message fmt e1 i (JObj kvs) rows) ! j)
       \<and> (\<forall>r \<in> set (store (update_message fmt e2 i (JObj kvs)
                              (store (update_message fmt e1 i (JObj kvs) rows)))).
            msg_id r = i \<longrightarrow> updated_at r = Some (now e2))
       \<and> store (update_message fmt e2 i (JObj kvs)
                  (store (update_message fmt e1 i (JObj kvs) rows)))
           = store (update_message fmt e2 i (JObj kvs) rows)"
proof -
  let ?up = "\<lambda>t r. if msg_id r = i then r\<lparr>body := b', updated_at := Some t\<rparr> else r"
  have s1: "store (update_message fmt e1 i (JObj kvs) rows) = map (?up (now e1)) rows"
    by (simp add: update_message_ok [OF assms(1,2,3,4,5)])
  have q1:
    "query_get i (map (?up (now e1)) rows)
       = Inr (Some (m\<lparr>body := b', updated_at := Some (now e1)\<rparr>))"
    using assms(1) by (rule query_get_updated)
  note second = update_message_ok [OF q1 assms(2,3,4,6), of fmt]
  have s2: "store (update_message fmt e2 i (JObj kvs) (map (?up (now e1)) rows))
              = map (?up (now e2)) rows"
    unfolding second by (simp only: outcome.simps restamp)
  have r2: "result (update_message fmt e2 i (JObj kvs) (map (?up (now e1)) rows))
              = Inr \<lparr>status = 200,
                  payload = to_dict fmt (m\<lparr>body := b', updated_at := Some (now e2)\<rparr>)\<rparr>"
    unfolding second by (cases m) (simp only: outcome.simps message.simps)
  have once: "store (update_message fmt e2 i (JObj kvs) rows) = map (?up (now e2)) rows"
    by (simp add: update_message_ok [OF assms(1,2,3,4,6)])
  have erase: "map (\<lambda>r. r\<lparr>updated_at := None\<rparr>) (map (?up (now e2)) rows)
                = map (\<lambda>r. r\<lparr>updated_at := None\<rparr>) (map (?up (now e1)) rows)"
    by (rule erase_stamp)
  have others: "\<forall>j < length rows. msg_id (rows ! j) \<noteq> i \<longrightarrow>
                  map (?up (now e2)) rows ! j = map (?up (now e1)) rows ! j"
    by (intro allI impI) (rule others_same)
  have stamp: "\<forall>r \<in> set (map (?up (now e2)) rows). msg_id r = i \<longrightarrow> updated_at r = Some (now e2)"
    by (intro ballI impI) (rule stamped [THEN conjunct1])
  show ?thesis
    unfolding s1 s2 r2 once by (intro conjI erase others stamp refl)
qed

theorem update_message_idempotent_witness:
  "store (update_message str_nat \<lparr>now = 7, db_fault = None\<rparr> 2 (JObj [(''body'', JStr ''new text'')])
     [\<lparr>msg_id = 1, body = JStr ''hi'', username = JStr ''ana'', created_at = Some 3, updated_at = None\<rparr>,
      \<lparr>msg_id = 2, body = JStr ''yo'', username = JStr ''bob'', created_at = Some 4, updated_at = None\<rparr>])
   = [\<lparr>msg_id = 1, body = JStr ''hi'', username = JStr ''ana'', created_at = Some 3, updated_at = None\<rparr>,
      \<lparr>msg_id = 2, body = JStr ''new text'', username = JStr ''bob'', created_at = Some 4,
        updated_at = Some 7\<rparr>]
 \<and> update_message str_nat \<lparr>now = 9, db_fault = None\<rparr> 2 (JObj [(''body'', JStr ''new text'')])
     (store (update_message str_nat \<lparr>now = 7, db_fault = None\<rparr> 2 (JObj [(''body'', JStr ''new text'')])
       [\<lparr>msg_id = 1, body = JStr ''hi'', username = JStr ''ana'', created_at = Some 3, updated_at = None\<rparr>,
        \<lparr>msg_id = 2, body = JStr ''yo'', username = JStr ''bob'', created_at = Some 4, updated_at = None\<rparr>]))
   = \<lparr>result = Inr \<lparr>status = 200,
          payload = JObj [(''body'', JStr ''new text''), (''created_at'', JStr ''4''), (''id'', JInt 2),
                          (''updated_at'', JStr ''9''), (''username'', JStr ''bob'')]\<rparr>,
      store =
        [\<lparr>msg_id = 1, body = JStr ''hi'', username = JStr ''ana'', created_at = Some 3, updated_at = None\<rparr>,
         \<lparr>msg_id = 2, body = JStr ''new text'', username = JStr ''bob'', created_at = Some 4,
           updated_at = Some 9\<rparr>],
      calls = [QueryGet 2, Add, Commit]\<rparr>"
proof -
  let ?e1 = "\<lparr>now = 7, db_fault = None\<rparr>"
  let ?e2 = "\<lparr>now = 9, db_fault = None\<rparr>"
  let ?r1 = "\<lparr>msg_id = 1, body = JStr ''hi'', username = JStr ''ana'', created_at = Some 3, updated_at = None\<rparr>"
  let ?r2 = "\<lparr>msg_id = 2, body = JStr ''yo'', username = JStr ''bob'', created_at = Some 4, updated_at = None\<rparr>"
  let ?kvs = "[(''body'', JStr ''new text'')]"
  let ?s1 = "store (update_message str_nat ?e1 2 (JObj ?kvs) [?r1, ?r2])"
  let ?out2 = "update_message str_nat ?e2 2 (JObj ?kvs) ?s1"
  have q: "query_get 2 [?r1, ?r2] = Inr (Some ?r2)" by (simp add: query_get_def fits_int64_def)
  have k: "map_of (rev ?kvs) ''body'' = Some (JStr ''new text'')" by simp
  have t: "truthy (JStr ''new text'')" by simp
  have bp: "bind_param (JStr ''new text'') = Inr (JStr ''new text'')" by simp
  have e1: "db_fault ?e1 = None" by simp
  have e2: "db_fault ?e2 = None" by simp
  note T = update_message_idempotent [OF q k t bp e1 e2, of str_nat]
  have s1: "?s1 = [?r1, ?r2\<lparr>body := JStr ''new text'', updated_at := Some 7\<rparr>]"
    by (simp add: handler_defs)
  have once: "store (update_message str_nat ?e2 2 (JObj ?kvs) [?r1, ?r2])
                = [?r1, ?r2\<lparr>body := JStr ''new text'', updated_at := Some 9\<rparr>]"
    by (simp add: handler_defs)
  from T have "store ?out2 = store (update_message str_nat ?e2 2 (JObj ?kvs) [?r1, ?r2])"
    by (elim conjE)
  with once have s2: "store ?out2 = [?r1, ?r2\<lparr>body := JStr ''new text'', updated_at := Some 9\<rparr>]"
    by simp
  from T have "result ?out2 = Inr \<lparr>status = 200,
      payload = to_dict str_nat (?r2\<lparr>body := JStr ''new text'', updated_at := Some (now ?e2)\<rparr>)\<rparr>"
    by (elim conjE)
  then have r2: "result ?out2 = Inr \<lparr>status = 200,
          payload = JObj [(''body'', JStr ''new text''), (''created_at'', JStr ''4''), (''id'', JInt 2),
                          (''updated_at'', JStr ''9''), (''username'', JStr ''bob'')]\<rparr>"
    by (simp add: to_dict_def ser_datetime_def str_nat.simps)
  have c2: "calls ?out2 = [QueryGet 2, Add, Commit]"
    unfolding s1 by (simp add: handler_defs)
  have "?out2 = \<lparr>result = result ?out2, store = store ?out2, calls = calls ?out2\<rparr>" by simp
  with r2 s2 c2 s1 show ?thesis by simp
qed

section \<open>Creation\<close>

text \<open>
  Claim C7. For a request object with truthy \<open>body\<close> and \<open>username\<close> that the table
  can store and a commit that succeeds, POST /messages answers 201 with the serialised new
  row; the new row carries the request's body and username as the table stores them
  (\<open>bind_param\<close>: a string as it is), an id that no row of the table has (so ids stay
  distinct), \<open>created_at\<close> set to the clock and \<open>updated_at\<close> null; and a following
  GET /messages lists the old rows and the new row, the new row exactly once.
\<close>

theorem create_message_then_get:
  fixes rows :: "message list" and b u b' u' :: json and e e' :: env
  assumes "map_of (rev kvs) ''body'' = Some b" and "truthy b"
      and "map_of (rev kvs) ''username'' = Some u" and "truthy u"
      and "db_fault e = None" and "db_fault e' = None"
      and "bind_param b = Inr b'" and "bind_param u = Inr u'"
  defines "new \<equiv> \<lparr>msg_id = next_id rows, body = b', username = u',
                    created_at = Some (now e), updated_at = None\<rparr>"
  shows "result (create_message fmt e (JObj kvs) rows)
           = Inr \<lparr>status = 201, payload = to_dict fmt new\<rparr>
       \<and> store (create_message fmt e (JObj kvs) rows) = rows @ [new]
       \<and> msg_id new \<notin> set (map msg_id rows)
       \<and> (distinct (map msg_id rows)
          \<longrightarrow> distinct (map msg_id (store (create_message fmt e (JObj kvs) rows))))
       \<and> result (get_messages fmt e' (store (create_message fmt e (JObj kvs) rows)))
           = Inr \<lparr>status = 200,
                  payload = JArr (map (to_dict fmt) (query_all_ordered (rows @ [new])))\<rparr>
       \<and> mset (query_all_ordered (rows @ [new])) = add_mset new (mset rows)
       \<and> count (mset (query_all_ordered (rows @ [new]))) new = 1"
proof -
  have ins: "insert_message e b u rows = Inr new"
    unfolding new_def using assms(5,2,4,7,8) by (rule insert_message_ok)
  have out: "create_message fmt e (JObj kvs) rows =
      \<lparr>result = Inr \<lparr>status = 201, payload = to_dict fmt new\<rparr>,
       store = rows @ [new], calls = [Add, Commit]\<rparr>"
    using assms(2,4) by (simp add: create_message_present [OF assms(1,3)] ins)
  have fresh: "msg_id new \<notin> set (map msg_id rows)"
    using next_id_fresh [of rows] by (simp add: new_def)
  then have notin: "new \<notin> set rows" by auto
  have ms: "mset (query_all_ordered (rows @ [new])) = add_mset new (mset rows)"
    by (simp add: query_all_ordered_def)
  have "count (mset rows) new = 0" using notin by (simp add: count_eq_zero_iff)
  with ms have cnt: "count (mset (query_all_ordered (rows @ [new]))) new = 1" by simp
  have get: "result (get_messages fmt e' (rows @ [new]))
           = Inr \<lparr>status = 200,
                  payload = JArr (map (to_dict fmt) (query_all_ordered (rows @ [new])))\<rparr>"
    using assms(6) by (simp add: get_messages_def)
  from fresh have dist: "distinct (map msg_id rows) \<longrightarrow> distinct (map msg_id (rows @ [new]))"
    by simp
  from out fresh dist get ms cnt show ?thesis by simp
qed

theorem create_message_then_get_witness:
  "create_message str_nat \<lparr>now = 7, db_fault = None\<rparr>
       (JObj [(''body'', JStr ''hi''), (''username'', JStr ''ana'')])
       [\<lparr>msg_id = 4, body = JStr ''yo'', username = JStr ''bob'',
          created_at = Some 9, updated_at = None\<rparr>]
   = \<lparr>result = Inr \<lparr>status = 201,
          payload = JObj [(''body'', JStr ''hi''), (''created_at'', JStr ''7''), (''id'', JInt 5),
                          (''updated_at'', JNull), (''username'', JStr ''ana'')]\<rparr>,
      store = [\<lparr>msg_id = 4, body = JStr ''yo'', username = JStr ''bob'',
                 created_at = Some 9, updated_at = None\<rparr>,
               \<lparr>msg_id = 5, body = JStr ''hi'', username = JStr ''ana'',
                 created_at = Some 7, updated_at = None\<rparr>],
      calls = [Add, Commit]\<rparr>
 \<and> result (get_messages str_nat \<lparr>now = 8, db_fault = None\<rparr>
       (store (create_message str_nat \<lparr>now = 7, db_fault = None\<rparr>
          (JObj [(''body'', JStr ''hi''), (''username'', JStr ''ana'')])
          [\<lparr>msg_id = 4, body = JStr ''yo'', username = JStr ''bob'',
             created_at = Some 9, updated_at = None\<rparr>])))
   = Inr \<lparr>status = 200, payload = JArr
       [JObj [(''body'', JStr ''hi''), (''created_at'', JStr ''7''), (''id'', JInt 5),
              (''updated_at'', JNull), (''username'', JStr ''ana'')],
        JObj [(''body'', JStr ''yo''), (''created_at'', JStr ''9''), (''id'', JInt 4),
              (''updated_at'', JNull), (''username'', JStr ''bob'')]]\<rparr>"
proof -
  let ?e = "\<lparr>now = 7, db_fault = None\<rparr>"
  let ?e' = "\<lparr>now = 8, db_fault = None\<rparr>"
  let ?rows = "[\<lparr>msg_id = 4, body = JStr ''yo'', username = JStr ''bob'',
                  created_at = Some 9, updated_at = None\<rparr>]"
  let ?kvs = "[(''body'', JStr ''hi''), (''username'', JStr ''ana'')]"
  have h1: "map_of (rev ?kvs) ''body'' = Some (JStr ''hi'')" by simp
  have h2: "truthy (JStr ''hi'')" by simp
  have h3: "map_of (rev ?kvs) ''username'' = Some (JStr ''ana'')" by simp
  have h4: "truthy (JStr ''ana'')" by simp
  have h5: "db_fault ?e = None" by simp
  have h6: "db_fault ?e' = None" by simp
  have h7: "bind_param (JStr ''hi'') = Inr (JStr ''hi'')" by simp
  have h8: "bind_param (JStr ''ana'') = Inr (JStr ''ana'')" by simp
  note T = create_message_then_get [OF h1 h2 h3 h4 h5 h6 h7 h8, of str_nat ?rows]
  have n: "next_id ?rows = 5" by (simp add: next_id_def)
  have c: "calls (create_message str_nat ?e (JObj ?kvs) ?rows) = [Add, Commit]"
    by (simp add: handler_defs)
  from T have r: "result (create_message str_nat ?e (JObj ?kvs) ?rows) =
      Inr \<lparr>status = 201,
          payload = JObj [(''body'', JStr ''hi''), (''created_at'', JStr ''7''), (''id'', JInt 5),
                          (''updated_at'', JNull), (''username'', JStr ''ana'')]\<rparr>"
    by (simp add: n to_dict_def ser_datetime_def str_nat.simps)
  from T have s: "store (create_message str_nat ?e (JObj ?kvs) ?rows) =
      [\<lparr>msg_id = 4, body = JStr ''yo'', username = JStr ''bob'',
                 created_at = Some 9, updated_at = None\<rparr>,
               \<lparr>msg_id = 5, body = JStr ''hi'', username = JStr ''ana'',
                 created_at = Some 7, updated_at = None\<rparr>]"
    by (simp add: n)
  from T have "result (get_messages str_nat ?e' (store (create_message str_nat ?e (JObj ?kvs) ?rows)))
     = Inr \<lparr>status = 200, payload = JArr (map (to_dict str_nat) (query_all_ordered
         (?rows @ [\<lparr>msg_id = next_id ?rows, body = JStr ''hi'', username = JStr ''ana'',
                    created_at = Some (now ?e), updated_at = None\<rparr>])))\<rparr>"
    by (elim conjE)
  then have g: "result (get_messages str_nat ?e' (store (create_message str_nat ?e (JObj ?kvs) ?rows)))
     = Inr \<lparr>status = 200, payload = JArr
       [JObj [(''body'', JStr ''hi''), (''created_at'', JStr ''7''), (''id'', JInt 5),
              (''updated_at'', JNull), (''username'', JStr ''ana'')],
        JObj [(''body'', JStr ''yo''), (''created_at'', JStr ''9''), (''id'', JInt 4),
              (''updated_at'', JNull), (''username'', JStr ''bob'')]]\<rparr>"
    by (simp add: n query_all_ordered_def to_dict_def ser_datetime_def str_nat.simps)
  have "create_message str_nat ?e (JObj ?kvs) ?rows =
     \<lparr>result = result (create_message str_nat ?e (JObj ?kvs) ?rows),
      store = store (create_message str_nat ?e (JObj ?kvs) ?rows),
      calls = calls (create_message str_nat ?e (JObj ?kvs) ?rows)\<rparr>"
    by simp
  with r s c g show ?thesis by simp
qed

text \<open>
  Claim C8. A POST whose JSON object lacks the key \<open>body\<close> or the key \<open>username\<close>, or
  gives either the empty string, is answered 400 with the JSON object that has the single
  field \<open>error\<close>; the table is unchanged and no session call is made.
\<close>

theorem create_message_invalid_400:
  assumes "map_of (rev kvs) ''body'' = None \<or> map_of (rev kvs) ''body'' = Some (JStr '''')
         \<or> map_of (rev kvs) ''username'' = None \<or> map_of (rev kvs) ''username'' = Some (JStr '''')"
  shows "create_message fmt e (JObj kvs) rows =
           \<lparr>result = Inr \<lparr>status = 400, payload = JObj [(''error'', JStr ''Bad Request'')]\<rparr>,
            store = rows, calls = []\<rparr>"
proof (cases "map_of (rev kvs) ''body'' = None \<or> map_of (rev kvs) ''username'' = None")
  case True
  then show ?thesis by (rule create_message_missing)
next
  case False
  then obtain b u where bu:
    "map_of (rev kvs) ''body'' = Some b" "map_of (rev kvs) ''username'' = Some u"
    by auto
  with assms have "\<not> (truthy b \<and> truthy u)" by auto
  then show ?thesis by (auto simp add: create_message_present [OF bu])
qed

theorem create_message_invalid_400_witness:
  "create_message str_nat \<lparr>now = 7, db_fault = None\<rparr> (JObj [(''username'', JStr ''bob'')])
     [\<lparr>msg_id = 1, body = JStr ''hi'', username = JStr ''ana'', created_at = Some 3, updated_at = None\<rparr>]
   = \<lparr>result = Inr \<lparr>status = 400, payload = JObj [(''error'', JStr ''Bad Request'')]\<rparr>,
      store = [\<lparr>msg_id = 1, body = JStr ''hi'', username = JStr ''ana'', created_at = Some 3, updated_at = None\<rparr>],
      calls = []\<rparr>
   \<and> create_message str_nat \<lparr>now = 7, db_fault = None\<rparr>
       (JObj [(''body'', JStr ''''), (''username'', JStr ''x'')]) []
   = \<lparr>result = Inr \<lparr>status = 400, payload = JObj [(''error'', JStr ''Bad Request'')]\<rparr>,
      store = [], calls = []\<rparr>"
  using create_message_invalid_400 [of "[(''username'', JStr ''bob'')]" str_nat "\<lparr>now = 7, db_fault = None\<rparr>"
      "[\<lparr>msg_id = 1, body = JStr ''hi'', username = JStr ''ana'', created_at = Some 3, updated_at = None\<rparr>]"]
    create_message_invalid_400 [of "[(''body'', JStr ''''), (''username'', JStr ''x'')]" str_nat
      "\<lparr>now = 7, db_fault = None\<rparr>" "[]"]
  by simp

section \<open>Deletion\<close>



section \<open>Validation by truth value\<close>




end
